theory Spec2Isabelle
  imports Main
begin

section \<open>edd-compute: the container lifecycle orchestrator\<close>

text \<open>
  A shallow embedding of \<^verbatim>\<open>internal/api/containers.go\<close>, of the parts of
  \<^verbatim>\<open>internal/db\<close> it calls and of the cluster client (package \<^verbatim>\<open>k8s\<close>).

  The process talks to two collaborators: a SQLite database and the cluster's API
  server. Their answers are inputs of the model (the record \<open>env\<close>); what the process
  has done to them is its state (the record \<open>world\<close>): the rows of the tables, the
  requests sent to the API server with the instant each was sent, and the goroutines
  started with \<^verbatim>\<open>go\<close>. Time is counted in seconds; a call takes no time, only waiting
  on a ticker or a deadline advances the clock.
\<close>

subsection \<open>Formatting and strings\<close>

text \<open>\<^verbatim>\<open>fmt.Sprintf("%d", n)\<close>: the decimal digits, with a minus sign below zero.\<close>

definition digit_char :: "nat \<Rightarrow> char" where
  "digit_char d = char_of (48 + d)"

function digits :: "nat \<Rightarrow> string" where
  "digits n = (if n < 10 then [digit_char n] else digits (n div 10) @ [digit_char (n mod 10)])"
  by pat_completeness auto
termination
  by (relation "measure id") auto

definition fmt_d :: "int \<Rightarrow> string" where
  "fmt_d n = (if n < 0 then CHR ''-'' # digits (nat (- n)) else digits (nat n))"

definition newline :: string where
  "newline = [CHR 0x0A]"

text \<open>
  \<^verbatim>\<open>strings.TrimSpace\<close> removes leading and trailing Unicode white space. On the
  UTF-8 bytes of a Go string these are the six ASCII characters and the encodings of
  U+0085, U+00A0, U+1680, U+2000 to U+200A, U+2028, U+2029, U+202F, U+205F and U+3000.
\<close>

definition spaces :: "string list" where
  "spaces =
     [[CHR 0x09], [CHR 0x0A], [CHR 0x0B], [CHR 0x0C], [CHR 0x0D], [CHR 0x20],
      [CHR 0xC2, CHR 0x85], [CHR 0xC2, CHR 0xA0],
      [CHR 0xE1, CHR 0x9A, CHR 0x80],
      [CHR 0xE2, CHR 0x80, CHR 0x80], [CHR 0xE2, CHR 0x80, CHR 0x81],
      [CHR 0xE2, CHR 0x80, CHR 0x82], [CHR 0xE2, CHR 0x80, CHR 0x83],
      [CHR 0xE2, CHR 0x80, CHR 0x84], [CHR 0xE2, CHR 0x80, CHR 0x85],
      [CHR 0xE2, CHR 0x80, CHR 0x86], [CHR 0xE2, CHR 0x80, CHR 0x87],
      [CHR 0xE2, CHR 0x80, CHR 0x88], [CHR 0xE2, CHR 0x80, CHR 0x89],
      [CHR 0xE2, CHR 0x80, CHR 0x8A],
      [CHR 0xE2, CHR 0x80, CHR 0xA8], [CHR 0xE2, CHR 0x80, CHR 0xA9],
      [CHR 0xE2, CHR 0x80, CHR 0xAF], [CHR 0xE2, CHR 0x81, CHR 0x9F],
      [CHR 0xE3, CHR 0x80, CHR 0x80]]"

definition leading_space :: "string \<Rightarrow> nat" where
  "leading_space s =
     (case find (\<lambda>p. take (length p) s = p) spaces of
        None \<Rightarrow> 0
      | Some p \<Rightarrow> length p)"

fun trim_left :: "nat \<Rightarrow> string \<Rightarrow> string" where
  "trim_left 0 s = s"
| "trim_left (Suc k) s =
     (if leading_space s = 0 then s else trim_left k (drop (leading_space s) s))"

definition TrimLeft :: "string \<Rightarrow> string" where
  "TrimLeft s = trim_left (length s) s"

definition trailing_space :: "string \<Rightarrow> nat" where
  "trailing_space s =
     (case find (\<lambda>p. length p \<le> length s \<and> drop (length s - length p) s = p) spaces of
        None \<Rightarrow> 0
      | Some p \<Rightarrow> length p)"

fun trim_right :: "nat \<Rightarrow> string \<Rightarrow> string" where
  "trim_right 0 s = s"
| "trim_right (Suc k) s =
     (if trailing_space s = 0 then s
      else trim_right k (take (length s - trailing_space s) s))"

definition TrimSpace :: "string \<Rightarrow> string" where
  "TrimSpace s = (let l = TrimLeft s in trim_right (length l) l)"

subsection \<open>The rows of the database (package db)\<close>

record Container =
  ID :: string
  UserID :: int
  Name :: string
  Namespace :: string
  Status :: string
  ExternalIP :: "string option"
  MemoryMB :: int
  StorageGB :: int
  Image :: string
  CreatedAt :: nat
  StoppedAt :: "nat option"

record SSHKey =
  KeyID :: int
  KeyUserID :: int
  KeyName :: string
  PublicKey :: string
  Fingerprint :: string
  KeyCreatedAt :: nat

datatype error = Errorf string

datatype db_op =
    DbCreateContainer
  | DbGetContainer
  | DbUpdateContainerStatus
  | DbUpdateContainerIP
  | DbUpdateContainerStopped
  | DbDeleteContainer
  | DbCountContainersByUser
  | DbGetSSHKeysByIDs

subsection \<open>The requests of the cluster client (package k8s)\<close>

text \<open>
  One constructor for each request the client sends, with the parts of the manifest
  that vary. The names of the objects are constants of the source: the secret
  \<^verbatim>\<open>ssh-keys\<close>, the claim \<^verbatim>\<open>storage\<close>, the policy \<^verbatim>\<open>isolation\<close>, the pod
  \<^verbatim>\<open>container\<close> and the service \<^verbatim>\<open>lb\<close>.
\<close>

datatype api_req =
    NamespacesCreate string string string
  | NamespacesDelete string
  | SecretsCreate string string
  | PersistentVolumeClaimsCreate string string
  | NetworkPoliciesCreate string
  | PodsCreate string string string
  | ServicesCreate string
  | ServicesGet string
  | PodsGet string
  | PodsDelete string

datatype api_error = AlreadyExists | NotFound | OtherError

datatype task =
    ProvisionContainer Container "SSHKey list"
  | PollExternalIP Container

text \<open>
  The collaborators' answers at an instant: the API server's answer to a create or
  delete request (\<open>None\<close> is success), the ingress addresses of the service \<^verbatim>\<open>lb\<close> of
  a namespace, the phase of the pod \<^verbatim>\<open>container\<close> of a namespace, whether the database
  driver returns an error for a statement, and the UUID the generator hands out.
\<close>

record env =
  k8s_write :: "nat \<Rightarrow> api_req \<Rightarrow> api_error option"
  k8s_service :: "nat \<Rightarrow> string \<Rightarrow> api_error + string list"
  k8s_pod :: "nat \<Rightarrow> string \<Rightarrow> api_error + string"
  db_fails :: "nat \<Rightarrow> db_op \<Rightarrow> bool"
  new_uuid :: "nat \<Rightarrow> string"

record world =
  containers :: "Container list"
  ssh_keys :: "SSHKey list"
  k8s_calls :: "(nat \<times> api_req) list"
  spawned :: "task list"
  clock :: nat

subsection \<open>internal/db/containers.go and ssh\_keys.go\<close>

text \<open>
  \<^verbatim>\<open>INSERT INTO containers\<close>: \<^verbatim>\<open>id\<close> is the primary key, so a second row with the same
  id is refused. The columns the statement does not name take their defaults:
  \<^verbatim>\<open>external_ip\<close> and \<^verbatim>\<open>stopped_at\<close> are NULL, \<^verbatim>\<open>created_at\<close> is the current time.
\<close>

definition db_CreateContainer :: "env \<Rightarrow> Container \<Rightarrow> world \<Rightarrow> world \<times> error option" where
  "db_CreateContainer e c w =
     (if db_fails e (clock w) DbCreateContainer \<or> ID c \<in> set (map ID (containers w))
      then (w, Some (Errorf ''insert container''))
      else (w\<lparr>containers := containers w @
                [c\<lparr>ExternalIP := None, CreatedAt := clock w, StoppedAt := None\<rparr>]\<rparr>, None))"

definition db_GetContainer :: "env \<Rightarrow> string \<Rightarrow> world \<Rightarrow> error + Container option" where
  "db_GetContainer e i w =
     (if db_fails e (clock w) DbGetContainer then Inl (Errorf ''query container'')
      else Inr (find (\<lambda>c. ID c = i) (containers w)))"

definition db_UpdateContainerStatus ::
  "env \<Rightarrow> string \<Rightarrow> string \<Rightarrow> world \<Rightarrow> world \<times> error option" where
  "db_UpdateContainerStatus e i status w =
     (if db_fails e (clock w) DbUpdateContainerStatus
      then (w, Some (Errorf ''update container status''))
      else (w\<lparr>containers :=
                map (\<lambda>c. if ID c = i then c\<lparr>Status := status\<rparr> else c) (containers w)\<rparr>, None))"

definition db_UpdateContainerIP ::
  "env \<Rightarrow> string \<Rightarrow> string \<Rightarrow> world \<Rightarrow> world \<times> error option" where
  "db_UpdateContainerIP e i ip w =
     (if db_fails e (clock w) DbUpdateContainerIP
      then (w, Some (Errorf ''update container ip''))
      else (w\<lparr>containers :=
                map (\<lambda>c. if ID c = i then c\<lparr>ExternalIP := Some ip\<rparr> else c) (containers w)\<rparr>,
            None))"

definition db_UpdateContainerStopped :: "env \<Rightarrow> string \<Rightarrow> world \<Rightarrow> world \<times> error option" where
  "db_UpdateContainerStopped e i w =
     (if db_fails e (clock w) DbUpdateContainerStopped
      then (w, Some (Errorf ''update container stopped''))
      else (w\<lparr>containers :=
                map (\<lambda>c. if ID c = i then c\<lparr>Status := ''stopped'', StoppedAt := Some (clock w)\<rparr>
                         else c) (containers w)\<rparr>,
            None))"

definition db_DeleteContainer :: "env \<Rightarrow> string \<Rightarrow> world \<Rightarrow> world \<times> error option" where
  "db_DeleteContainer e i w =
     (if db_fails e (clock w) DbDeleteContainer
      then (w, Some (Errorf ''delete container''))
      else (w\<lparr>containers := filter (\<lambda>c. ID c \<noteq> i) (containers w)\<rparr>, None))"

definition db_CountContainersByUser :: "env \<Rightarrow> int \<Rightarrow> world \<Rightarrow> error + nat" where
  "db_CountContainersByUser e userID w =
     (if db_fails e (clock w) DbCountContainersByUser then Inl (Errorf ''count containers'')
      else Inr (length (filter (\<lambda>c. UserID c = userID \<and> Status c \<noteq> ''deleted'')
                         (containers w))))"

text \<open>
  \<^verbatim>\<open>SELECT ... FROM ssh_keys WHERE user_id = ? AND id IN (?, ..., ?)\<close>, with no
  \<^verbatim>\<open>ORDER BY\<close>: the rows of the table that match, as the table holds them. The list
  of ids only says which rows match.
\<close>

definition db_GetSSHKeysByIDs :: "env \<Rightarrow> int \<Rightarrow> int list \<Rightarrow> world \<Rightarrow> error + SSHKey list" where
  "db_GetSSHKeysByIDs e userID ids w =
     (if ids = [] then Inr []
      else if db_fails e (clock w) DbGetSSHKeysByIDs then Inl (Errorf ''query ssh keys by ids'')
      else Inr (filter (\<lambda>k. KeyUserID k = userID \<and> KeyID k \<in> set ids) (ssh_keys w)))"

subsection \<open>The cluster client\<close>

definition send :: "api_req \<Rightarrow> world \<Rightarrow> world" where
  "send r w = w\<lparr>k8s_calls := k8s_calls w @ [(clock w, r)]\<rparr>"

text \<open>A create answers \<^verbatim>\<open>nil\<close> when the object already exists.\<close>

definition create :: "env \<Rightarrow> api_req \<Rightarrow> string \<Rightarrow> world \<Rightarrow> world \<times> error option" where
  "create e r msg w =
     (send r w,
      case k8s_write e (clock w) r of
        None \<Rightarrow> None
      | Some err \<Rightarrow> if err = AlreadyExists then None else Some (Errorf msg))"

text \<open>A delete answers \<^verbatim>\<open>nil\<close> when the object is not there.\<close>

definition delete :: "env \<Rightarrow> api_req \<Rightarrow> string \<Rightarrow> world \<Rightarrow> world \<times> error option" where
  "delete e r msg w =
     (send r w,
      case k8s_write e (clock w) r of
        None \<Rightarrow> None
      | Some err \<Rightarrow> if err = NotFound then None else Some (Errorf msg))"

definition k8s_CreateNamespace ::
  "env \<Rightarrow> string \<Rightarrow> int \<Rightarrow> string \<Rightarrow> world \<Rightarrow> world \<times> error option" where
  "k8s_CreateNamespace e name userID containerID w =
     create e (NamespacesCreate name (fmt_d userID) containerID) ''create namespace'' w"

definition k8s_DeleteNamespace :: "env \<Rightarrow> string \<Rightarrow> world \<Rightarrow> world \<times> error option" where
  "k8s_DeleteNamespace e name w = delete e (NamespacesDelete name) ''delete namespace'' w"

definition k8s_CreateSSHSecret ::
  "env \<Rightarrow> string \<Rightarrow> string \<Rightarrow> world \<Rightarrow> world \<times> error option" where
  "k8s_CreateSSHSecret e ns authorizedKeys w =
     create e (SecretsCreate ns authorizedKeys) ''create ssh secret'' w"

definition k8s_CreatePVC :: "env \<Rightarrow> string \<Rightarrow> int \<Rightarrow> world \<Rightarrow> world \<times> error option" where
  "k8s_CreatePVC e ns storageGB w =
     create e (PersistentVolumeClaimsCreate ns (fmt_d storageGB @ ''Gi'')) ''create pvc'' w"

definition k8s_CreateNetworkPolicy :: "env \<Rightarrow> string \<Rightarrow> world \<Rightarrow> world \<times> error option" where
  "k8s_CreateNetworkPolicy e ns w =
     create e (NetworkPoliciesCreate ns) ''create network policy'' w"

definition k8s_CreatePod ::
  "env \<Rightarrow> string \<Rightarrow> string \<Rightarrow> int \<Rightarrow> world \<Rightarrow> world \<times> error option" where
  "k8s_CreatePod e ns img memoryMB w =
     create e (PodsCreate ns img (fmt_d memoryMB @ ''Mi'')) ''create pod'' w"

definition k8s_CreateLoadBalancer :: "env \<Rightarrow> string \<Rightarrow> world \<Rightarrow> world \<times> error option" where
  "k8s_CreateLoadBalancer e ns w = create e (ServicesCreate ns) ''create load balancer'' w"

definition k8s_DeletePod :: "env \<Rightarrow> string \<Rightarrow> world \<Rightarrow> world \<times> error option" where
  "k8s_DeletePod e ns w = delete e (PodsDelete ns) ''delete pod'' w"

text \<open>The first ingress address of the service, or the empty string: no address yet.\<close>

definition k8s_GetServiceExternalIP :: "env \<Rightarrow> string \<Rightarrow> world \<Rightarrow> world \<times> (error + string)" where
  "k8s_GetServiceExternalIP e ns w =
     (send (ServicesGet ns) w,
      case k8s_service e (clock w) ns of
        Inl err \<Rightarrow> Inl (Errorf ''get service'')
      | Inr ingress \<Rightarrow>
          (case ingress of
             [] \<Rightarrow> Inr ''''
           | ip # rest \<Rightarrow> if ip \<noteq> '''' then Inr ip else Inr ''''))"

text \<open>
  The phase of the pod, in the vocabulary of the rows. The phases of the cluster are the
  strings \<^verbatim>\<open>Pending\<close>, \<^verbatim>\<open>Running\<close>, \<^verbatim>\<open>Succeeded\<close>, \<^verbatim>\<open>Failed\<close> and \<^verbatim>\<open>Unknown\<close>.
  A pod that is not there is not an error: the answer is \<^verbatim>\<open>not_found\<close>.
\<close>

definition k8s_GetPodStatus :: "env \<Rightarrow> string \<Rightarrow> world \<Rightarrow> world \<times> (error + string)" where
  "k8s_GetPodStatus e ns w =
     (send (PodsGet ns) w,
      case k8s_pod e (clock w) ns of
        Inl err \<Rightarrow> if err = NotFound then Inr ''not_found'' else Inl (Errorf ''get pod'')
      | Inr phase \<Rightarrow>
          if phase = ''Pending'' then Inr ''pending''
          else if phase = ''Running'' then Inr ''running''
          else if phase = ''Succeeded'' then Inr ''stopped''
          else if phase = ''Failed'' then Inr ''failed''
          else Inr ''unknown'')"

subsection \<open>internal/api/containers.go\<close>

definition maxContainersPerUser :: nat where
  "maxContainersPerUser = 3"

definition defaultMemoryMB :: int where
  "defaultMemoryMB = 512"

definition defaultStorageGB :: int where
  "defaultStorageGB = 5"

definition defaultImage :: string where
  "defaultImage = ''eddisonso/edd-compute-base:latest''"

record containerRequest =
  reqName :: string
  reqMemoryMB :: int
  reqStorageGB :: int
  reqSSHKeyIDs :: "int list"

record containerResponse =
  respID :: string
  respName :: string
  respStatus :: string
  respExternalIP :: "string option"
  respSSHCommand :: "string option"
  respMemoryMB :: int
  respStorageGB :: int
  respCreatedAt :: nat

record userInfo =
  uid :: int
  username :: string

text \<open>What a handler writes: a JSON body, or \<^verbatim>\<open>writeError\<close>'s message and status code.\<close>

datatype response =
    WriteContainer containerResponse
  | WriteStatusOk
  | WriteError string nat

definition containerToResponse :: "Container \<Rightarrow> containerResponse" where
  "containerToResponse c =
     \<lparr>respID = ID c, respName = Name c, respStatus = Status c,
      respExternalIP = ExternalIP c,
      respSSHCommand = (case ExternalIP c of None \<Rightarrow> None | Some ip \<Rightarrow> Some (''ssh root@'' @ ip)),
      respMemoryMB = MemoryMB c, respStorageGB = StorageGB c,
      respCreatedAt = CreatedAt c\<rparr>"

definition go :: "task \<Rightarrow> world \<Rightarrow> world" where
  "go t w = w\<lparr>spawned := spawned w @ [t]\<rparr>"

text \<open>
  \<^verbatim>\<open>provisionContainer\<close>: the six creations one after the other, each returning at
  its error after recording the status \<^verbatim>\<open>failed\<close>. The error of the status update is
  dropped, as in the source. The deadline of two minutes of the context shows as the
  error answer of the request in flight.
\<close>

definition provisionContainer :: "env \<Rightarrow> Container \<Rightarrow> SSHKey list \<Rightarrow> world \<Rightarrow> world" where
  "provisionContainer e container sshKeys w =
     (let authorizedKeys = concat (map (\<lambda>key. PublicKey key @ newline) sshKeys);
          (w1, err1) = k8s_CreateNamespace e (Namespace container) (UserID container)
                         (ID container) w
      in if err1 \<noteq> None then fst (db_UpdateContainerStatus e (ID container) ''failed'' w1)
         else
     (let (w2, err2) = k8s_CreateSSHSecret e (Namespace container) authorizedKeys w1
      in if err2 \<noteq> None then fst (db_UpdateContainerStatus e (ID container) ''failed'' w2)
         else
     (let (w3, err3) = k8s_CreatePVC e (Namespace container) (StorageGB container) w2
      in if err3 \<noteq> None then fst (db_UpdateContainerStatus e (ID container) ''failed'' w3)
         else
     (let (w4, err4) = k8s_CreateNetworkPolicy e (Namespace container) w3
      in if err4 \<noteq> None then fst (db_UpdateContainerStatus e (ID container) ''failed'' w4)
         else
     (let (w5, err5) = k8s_CreatePod e (Namespace container) (Image container)
                         (MemoryMB container) w4
      in if err5 \<noteq> None then fst (db_UpdateContainerStatus e (ID container) ''failed'' w5)
         else
     (let (w6, err6) = k8s_CreateLoadBalancer e (Namespace container) w5
      in if err6 \<noteq> None then fst (db_UpdateContainerStatus e (ID container) ''failed'' w6)
         else go (PollExternalIP container)
                (fst (db_UpdateContainerStatus e (ID container) ''running'' w6))))))))"

text \<open>
  \<^verbatim>\<open>pollExternalIP\<close>: a ticker of 5 seconds under a deadline of 5 minutes. The loop
  waits for whichever comes first. The deadline is armed before the ticker, so where
  the two fall on the same second the deadline is the one received. \<open>tick\<close> is the
  instant of the latest tick. The source returns nothing; \<open>poll_end\<close> records through
  which of its two \<^verbatim>\<open>return\<close>s the loop was left.
\<close>

definition pollInterval :: nat where
  "pollInterval = 5"

definition pollTimeout :: nat where
  "pollTimeout = 5 * 60"

datatype poll_end = TimedOut | Assigned string

function pollLoop :: "env \<Rightarrow> Container \<Rightarrow> nat \<Rightarrow> nat \<Rightarrow> world \<Rightarrow> world \<times> poll_end" where
  "pollLoop e container deadline tick w =
     (if deadline \<le> tick + pollInterval then (w\<lparr>clock := deadline\<rparr>, TimedOut)
      else
        (let (w1, r) = k8s_GetServiceExternalIP e (Namespace container)
                         (w\<lparr>clock := tick + pollInterval\<rparr>)
         in case r of
              Inl err \<Rightarrow> pollLoop e container deadline (tick + pollInterval) w1
            | Inr ip \<Rightarrow>
                if ip \<noteq> ''''
                then (fst (db_UpdateContainerIP e (ID container) ip w1), Assigned ip)
                else pollLoop e container deadline (tick + pollInterval) w1))"
  by pat_completeness auto
termination
  by (relation "measure (\<lambda>(e, container, deadline, tick, w). deadline - tick)")
     (auto simp: pollInterval_def)

definition pollExternalIP :: "env \<Rightarrow> Container \<Rightarrow> world \<Rightarrow> world \<times> poll_end" where
  "pollExternalIP e container w = pollLoop e container (clock w + pollTimeout) (clock w) w"

text \<open>
  The handlers. \<open>user\<close> is what \<^verbatim>\<open>getUserFromContext\<close> finds in the request's
  context, \<open>body\<close> the decoded JSON body (\<open>None\<close> when decoding fails), \<open>containerID\<close>
  the path value \<^verbatim>\<open>id\<close>. A deadline of a handler's context (10 or 30 seconds) shows
  as the error answer of the request in flight. What \<^verbatim>\<open>slog\<close> logs is left out.
\<close>

definition CreateContainer ::
  "env \<Rightarrow> userInfo option \<Rightarrow> containerRequest option \<Rightarrow> world \<Rightarrow> world \<times> response" where
  "CreateContainer e user body w =
     (case user of
        None \<Rightarrow> (w, WriteError ''unauthorized'' 401)
      | Some u \<Rightarrow>
     (case body of
        None \<Rightarrow> (w, WriteError ''invalid request body'' 400)
      | Some req \<Rightarrow>
     (let name = TrimSpace (reqName req)
      in if name = '''' then (w, WriteError ''name is required'' 400)
         else
     (case db_CountContainersByUser e (uid u) w of
        Inl err \<Rightarrow> (w, WriteError ''internal error'' 500)
      | Inr count \<Rightarrow>
          if count \<ge> maxContainersPerUser
          then (w, WriteError (''container limit reached ('' @
                                fmt_d (int maxContainersPerUser) @ '')'') 400)
          else if length (reqSSHKeyIDs req) = 0
          then (w, WriteError ''at least one SSH key is required'' 400)
          else
     (case db_GetSSHKeysByIDs e (uid u) (reqSSHKeyIDs req) w of
        Inl err \<Rightarrow> (w, WriteError ''internal error'' 500)
      | Inr sshKeys \<Rightarrow>
          if length sshKeys \<noteq> length (reqSSHKeyIDs req)
          then (w, WriteError ''one or more SSH keys not found'' 400)
          else
     (let memoryMB = (if reqMemoryMB req \<le> 0 then defaultMemoryMB else reqMemoryMB req);
          storageGB = (if reqStorageGB req \<le> 0 then defaultStorageGB else reqStorageGB req);
          containerID = take 8 (new_uuid e (clock w));
          namespace = ''compute-'' @ fmt_d (uid u) @ ''-'' @ containerID;
          container = \<lparr>ID = containerID, UserID = uid u, Name = name,
                       Namespace = namespace, Status = ''pending'', ExternalIP = None,
                       MemoryMB = memoryMB, StorageGB = storageGB, Image = defaultImage,
                       CreatedAt = 0, StoppedAt = None\<rparr>
      in case db_CreateContainer e container w of
           (w1, Some err) \<Rightarrow> (w1, WriteError ''internal error'' 500)
         | (w1, None) \<Rightarrow>
             (go (ProvisionContainer container sshKeys) w1,
              WriteContainer (containerToResponse container))))))))"

definition GetContainer ::
  "env \<Rightarrow> userInfo option \<Rightarrow> string \<Rightarrow> world \<Rightarrow> world \<times> response" where
  "GetContainer e user containerID w =
     (case user of
        None \<Rightarrow> (w, WriteError ''unauthorized'' 401)
      | Some u \<Rightarrow>
     (case db_GetContainer e containerID w of
        Inl err \<Rightarrow> (w, WriteError ''internal error'' 500)
      | Inr None \<Rightarrow> (w, WriteError ''container not found'' 404)
      | Inr (Some container) \<Rightarrow>
          if UserID container \<noteq> uid u then (w, WriteError ''container not found'' 404)
          else
     (let (w1, r1) = k8s_GetPodStatus e (Namespace container) w;
          (w2, c2) =
            (case r1 of
               Inr status \<Rightarrow>
                 if status \<noteq> '''' \<and> status \<noteq> Status container
                 then (fst (db_UpdateContainerStatus e (ID container) status w1),
                       container\<lparr>Status := status\<rparr>)
                 else (w1, container)
             | Inl err \<Rightarrow> (w1, container));
          (w3, c3) =
            (if ExternalIP c2 = None
             then (let (w2', r2) = k8s_GetServiceExternalIP e (Namespace c2) w2
                   in case r2 of
                        Inr ip \<Rightarrow>
                          if ip \<noteq> ''''
                          then (fst (db_UpdateContainerIP e (ID c2) ip w2'),
                                c2\<lparr>ExternalIP := Some ip\<rparr>)
                          else (w2', c2)
                      | Inl err \<Rightarrow> (w2', c2))
             else (w2, c2))
      in (w3, WriteContainer (containerToResponse c3)))))"

definition DeleteContainer ::
  "env \<Rightarrow> userInfo option \<Rightarrow> string \<Rightarrow> world \<Rightarrow> world \<times> response" where
  "DeleteContainer e user containerID w =
     (case user of
        None \<Rightarrow> (w, WriteError ''unauthorized'' 401)
      | Some u \<Rightarrow>
     (case db_GetContainer e containerID w of
        Inl err \<Rightarrow> (w, WriteError ''internal error'' 500)
      | Inr None \<Rightarrow> (w, WriteError ''container not found'' 404)
      | Inr (Some container) \<Rightarrow>
          if UserID container \<noteq> uid u then (w, WriteError ''container not found'' 404)
          else
     (case k8s_DeleteNamespace e (Namespace container) w of
        (w1, Some err) \<Rightarrow> (w1, WriteError ''failed to delete container'' 500)
      | (w1, None) \<Rightarrow>
     (case db_DeleteContainer e containerID w1 of
        (w2, Some err) \<Rightarrow> (w2, WriteError ''internal error'' 500)
      | (w2, None) \<Rightarrow> (w2, WriteStatusOk)))))"

definition StopContainer ::
  "env \<Rightarrow> userInfo option \<Rightarrow> string \<Rightarrow> world \<Rightarrow> world \<times> response" where
  "StopContainer e user containerID w =
     (case user of
        None \<Rightarrow> (w, WriteError ''unauthorized'' 401)
      | Some u \<Rightarrow>
     (case db_GetContainer e containerID w of
        Inl err \<Rightarrow> (w, WriteError ''internal error'' 500)
      | Inr None \<Rightarrow> (w, WriteError ''container not found'' 404)
      | Inr (Some container) \<Rightarrow>
          if UserID container \<noteq> uid u then (w, WriteError ''container not found'' 404)
          else
     (case k8s_DeletePod e (Namespace container) w of
        (w1, Some err) \<Rightarrow> (w1, WriteError ''failed to stop container'' 500)
      | (w1, None) \<Rightarrow>
          (fst (db_UpdateContainerStopped e containerID w1),
           WriteContainer (containerToResponse (container\<lparr>Status := ''stopped''\<rparr>))))))"

definition StartContainer ::
  "env \<Rightarrow> userInfo option \<Rightarrow> string \<Rightarrow> world \<Rightarrow> world \<times> response" where
  "StartContainer e user containerID w =
     (case user of
        None \<Rightarrow> (w, WriteError ''unauthorized'' 401)
      | Some u \<Rightarrow>
     (case db_GetContainer e containerID w of
        Inl err \<Rightarrow> (w, WriteError ''internal error'' 500)
      | Inr None \<Rightarrow> (w, WriteError ''container not found'' 404)
      | Inr (Some container) \<Rightarrow>
          if UserID container \<noteq> uid u then (w, WriteError ''container not found'' 404)
          else
     (case k8s_CreatePod e (Namespace container) (Image container) (MemoryMB container) w of
        (w1, Some err) \<Rightarrow> (w1, WriteError ''failed to start container'' 500)
      | (w1, None) \<Rightarrow>
          (fst (db_UpdateContainerStatus e containerID ''pending'' w1),
           WriteContainer (containerToResponse (container\<lparr>Status := ''pending''\<rparr>))))))"

section \<open>Vocabulary of the properties\<close>

text \<open>
  A create request is accepted when the API server answers without error or answers
  that the object already exists: the two answers the client turns into \<^verbatim>\<open>nil\<close>.
\<close>

definition create_ok :: "env \<Rightarrow> nat \<Rightarrow> api_req \<Rightarrow> bool" where
  "create_ok e t r = (k8s_write e t r = None \<or> k8s_write e t r = Some AlreadyExists)"

definition delete_ok :: "env \<Rightarrow> nat \<Rightarrow> api_req \<Rightarrow> bool" where
  "delete_ok e t r = (k8s_write e t r = None \<or> k8s_write e t r = Some NotFound)"

text \<open>
  The six requests of a provisioning, in the order the specification lists them:
  namespace, SSH secret, volume claim, network policy, workload, load-balancer service.
\<close>

definition provisionSteps :: "Container \<Rightarrow> SSHKey list \<Rightarrow> api_req list" where
  "provisionSteps c keys =
     [NamespacesCreate (Namespace c) (fmt_d (UserID c)) (ID c),
      SecretsCreate (Namespace c) (concat (map (\<lambda>k. PublicKey k @ newline) keys)),
      PersistentVolumeClaimsCreate (Namespace c) (fmt_d (StorageGB c) @ ''Gi''),
      NetworkPoliciesCreate (Namespace c),
      PodsCreate (Namespace c) (Image c) (fmt_d (MemoryMB c) @ ''Mi''),
      ServicesCreate (Namespace c)]"

text \<open>The table after the status, or the address, of the row \<open>i\<close> has been written.\<close>

definition set_status :: "string \<Rightarrow> string \<Rightarrow> Container list \<Rightarrow> Container list" where
  "set_status i s rows = map (\<lambda>c. if ID c = i then c\<lparr>Status := s\<rparr> else c) rows"

definition set_ip :: "string \<Rightarrow> string \<Rightarrow> Container list \<Rightarrow> Container list" where
  "set_ip i ip rows = map (\<lambda>c. if ID c = i then c\<lparr>ExternalIP := Some ip\<rparr> else c) rows"

definition set_stopped :: "string \<Rightarrow> nat \<Rightarrow> Container list \<Rightarrow> Container list" where
  "set_stopped i t rows =
     map (\<lambda>c. if ID c = i then c\<lparr>Status := ''stopped'', StoppedAt := Some t\<rparr> else c) rows"

text \<open>
  An answer to the service query that shows no address: an error, no ingress entry, or
  a first entry whose address is empty.
\<close>

fun unassigned :: "api_error + string list \<Rightarrow> bool" where
  "unassigned (Inl err) = True"
| "unassigned (Inr []) = True"
| "unassigned (Inr (ip # rest)) = (ip = '''')"

text \<open>The first \<open>n\<close> queries of a poller started at \<open>start\<close>: one every five seconds.\<close>

definition polls :: "string \<Rightarrow> nat \<Rightarrow> nat \<Rightarrow> (nat \<times> api_req) list" where
  "polls ns start n = map (\<lambda>j. (start + 5 * j, ServicesGet ns)) [1..<Suc n]"

text \<open>
  A creation request that passes every check of \<^verbatim>\<open>CreateContainer\<close>, in a state where
  the database answers and accepts the row: the name is not blank, the caller owns
  fewer containers than the cap, at least one key is named, every named key is found
  among the caller's keys, and the new id is not the id of a row. The memory and storage
  of the request play no part.
\<close>

definition accepted_request :: "env \<Rightarrow> userInfo \<Rightarrow> containerRequest \<Rightarrow> world \<Rightarrow> bool" where
  "accepted_request e u req w =
     (TrimSpace (reqName req) \<noteq> ''''
      \<and> \<not> db_fails e (clock w) DbCountContainersByUser
      \<and> length (filter (\<lambda>c. UserID c = uid u \<and> Status c \<noteq> ''deleted'') (containers w))
          < maxContainersPerUser
      \<and> reqSSHKeyIDs req \<noteq> []
      \<and> \<not> db_fails e (clock w) DbGetSSHKeysByIDs
      \<and> length (filter (\<lambda>k. KeyUserID k = uid u \<and> KeyID k \<in> set (reqSSHKeyIDs req))
                  (ssh_keys w)) = length (reqSSHKeyIDs req)
      \<and> \<not> db_fails e (clock w) DbCreateContainer
      \<and> take 8 (new_uuid e (clock w)) \<notin> set (map ID (containers w)))"

text \<open>
  The string \<open>s\<close> is the decimal numeral of \<open>n\<close>: a minus sign below zero, then digits
  with no leading zero whose value is the absolute value of \<open>n\<close>.
\<close>

definition decimal :: "int \<Rightarrow> string \<Rightarrow> bool" where
  "decimal n s =
     (\<exists>ds. s = (if n < 0 then ''-'' else '''') @ ds
          \<and> ds \<noteq> [] \<and> set ds \<subseteq> set ''0123456789''
          \<and> (hd ds = CHR ''0'' \<longrightarrow> ds = ''0'')
          \<and> foldl (\<lambda>a ch. 10 * a + (of_char ch - 48)) 0 ds = nat \<bar>n\<bar>)"

section \<open>Example data\<close>

definition alice :: userInfo where
  "alice = \<lparr>uid = 7, username = ''alice''\<rparr>"

definition bob :: userInfo where
  "bob = \<lparr>uid = 8, username = ''bob''\<rparr>"

definition key1 :: SSHKey where
  "key1 = \<lparr>KeyID = 1, KeyUserID = 7, KeyName = ''laptop'',
            PublicKey = ''ssh-ed25519 AAAA alice@laptop'', Fingerprint = ''aa'',
            KeyCreatedAt = 10\<rparr>"

definition key2 :: SSHKey where
  "key2 = \<lparr>KeyID = 2, KeyUserID = 7, KeyName = ''desk'',
            PublicKey = ''ssh-rsa BBBB alice@desk'', Fingerprint = ''bb'',
            KeyCreatedAt = 20\<rparr>"

text \<open>
  A cluster and a database that accept everything; the service has no address and the
  pod is running.
\<close>

definition steady :: env where
  "steady = \<lparr>k8s_write = (\<lambda>t r. None), k8s_service = (\<lambda>t ns. Inr []),
             k8s_pod = (\<lambda>t ns. Inr ''Running''), db_fails = (\<lambda>t op. False),
             new_uuid = (\<lambda>t. ''3f2a9c1e-5b7d-4e2a-9c1f-0a1b2c3d4e5f'')\<rparr>"

text \<open>The API server refuses volume claims.\<close>

definition no_storage :: env where
  "no_storage =
     steady\<lparr>k8s_write :=
       (\<lambda>t r. case r of PersistentVolumeClaimsCreate ns q \<Rightarrow> Some OtherError | _ \<Rightarrow> None)\<rparr>"

text \<open>The pod is gone: deleting it and reading it both answer not-found.\<close>

definition pod_gone :: env where
  "pod_gone = steady\<lparr>k8s_write := (\<lambda>t r. Some NotFound), k8s_pod := (\<lambda>t ns. Inl NotFound)\<rparr>"

text \<open>The API server answers every read with an error.\<close>

definition unreachable :: env where
  "unreachable =
     steady\<lparr>k8s_service := (\<lambda>t ns. Inl OtherError), k8s_pod := (\<lambda>t ns. Inl OtherError)\<rparr>"

text \<open>
  The load balancer gets its address 15 seconds after time 100; the query at 105 fails.
\<close>

definition slow_lb :: env where
  "slow_lb =
     steady\<lparr>k8s_service :=
       (\<lambda>t ns. if t < 115 then (if t = 105 then Inl OtherError else Inr [])
                else Inr [''203.0.113.7''])\<rparr>"

definition dev1 :: containerRequest where
  "dev1 = \<lparr>reqName = '' dev1 '', reqMemoryMB = 0, reqStorageGB = - 3, reqSSHKeyIDs = [2, 1]\<rparr>"

text \<open>The container \<^verbatim>\<open>CreateContainer\<close> builds for \<open>alice\<close> from \<open>dev1\<close>.\<close>

definition box :: Container where
  "box = \<lparr>ID = ''3f2a9c1e'', UserID = 7, Name = ''dev1'', Namespace = ''compute-7-3f2a9c1e'',
           Status = ''pending'', ExternalIP = None, MemoryMB = 512, StorageGB = 5,
           Image = ''eddisonso/edd-compute-base:latest'', CreatedAt = 0, StoppedAt = None\<rparr>"

definition w0 :: world where
  "w0 = \<lparr>containers = [], ssh_keys = [key1, key2], k8s_calls = [], spawned = [], clock = 100\<rparr>"

text \<open>The table holds the row of \<open>box\<close>; then the same row stopped; then three rows.\<close>

definition w1 :: world where
  "w1 = w0\<lparr>containers := [box\<lparr>CreatedAt := 100\<rparr>]\<rparr>"

definition w_stopped :: world where
  "w_stopped = w0\<lparr>containers := [box\<lparr>Status := ''stopped'', StoppedAt := Some 90\<rparr>]\<rparr>"

definition w_full :: world where
  "w_full = w0\<lparr>containers := [box, box\<lparr>ID := ''aaaaaaaa''\<rparr>, box\<lparr>ID := ''bbbbbbbb''\<rparr>]\<rparr>"

section \<open>What each primitive does to the state\<close>

declare pollLoop.simps [simp del]

lemma send_simps [simp]:
  "containers (send r w) = containers w"
  "ssh_keys (send r w) = ssh_keys w"
  "k8s_calls (send r w) = k8s_calls w @ [(clock w, r)]"
  "spawned (send r w) = spawned w"
  "clock (send r w) = clock w"
  by (simp_all add: send_def)

lemma go_simps [simp]:
  "containers (go t w) = containers w"
  "ssh_keys (go t w) = ssh_keys w"
  "k8s_calls (go t w) = k8s_calls w"
  "spawned (go t w) = spawned w @ [t]"
  "clock (go t w) = clock w"
  by (simp_all add: go_def)

lemma create_eq:
  "create e r m w = (send r w, if create_ok e (clock w) r then None else Some (Errorf m))"
  by (auto simp: create_def create_ok_def split: option.splits)

lemma delete_eq:
  "delete e r m w = (send r w, if delete_ok e (clock w) r then None else Some (Errorf m))"
  by (auto simp: delete_def delete_ok_def split: option.splits)

lemmas k8s_create_defs =
  k8s_CreateNamespace_def k8s_CreateSSHSecret_def k8s_CreatePVC_def
  k8s_CreateNetworkPolicy_def k8s_CreatePod_def k8s_CreateLoadBalancer_def

lemma update_status_simps [simp]:
  "containers (fst (db_UpdateContainerStatus e i s w)) =
     (if db_fails e (clock w) DbUpdateContainerStatus then containers w
      else set_status i s (containers w))"
  "ssh_keys (fst (db_UpdateContainerStatus e i s w)) = ssh_keys w"
  "k8s_calls (fst (db_UpdateContainerStatus e i s w)) = k8s_calls w"
  "spawned (fst (db_UpdateContainerStatus e i s w)) = spawned w"
  "clock (fst (db_UpdateContainerStatus e i s w)) = clock w"
  by (simp_all add: db_UpdateContainerStatus_def set_status_def)

lemma update_ip_simps [simp]:
  "containers (fst (db_UpdateContainerIP e i ip w)) =
     (if db_fails e (clock w) DbUpdateContainerIP then containers w
      else set_ip i ip (containers w))"
  "ssh_keys (fst (db_UpdateContainerIP e i ip w)) = ssh_keys w"
  "k8s_calls (fst (db_UpdateContainerIP e i ip w)) = k8s_calls w"
  "spawned (fst (db_UpdateContainerIP e i ip w)) = spawned w"
  "clock (fst (db_UpdateContainerIP e i ip w)) = clock w"
  by (simp_all add: db_UpdateContainerIP_def set_ip_def)

lemma update_stopped_simps [simp]:
  "containers (fst (db_UpdateContainerStopped e i w)) =
     (if db_fails e (clock w) DbUpdateContainerStopped then containers w
      else set_stopped i (clock w) (containers w))"
  "ssh_keys (fst (db_UpdateContainerStopped e i w)) = ssh_keys w"
  "k8s_calls (fst (db_UpdateContainerStopped e i w)) = k8s_calls w"
  "spawned (fst (db_UpdateContainerStopped e i w)) = spawned w"
  "clock (fst (db_UpdateContainerStopped e i w)) = clock w"
  by (simp_all add: db_UpdateContainerStopped_def set_stopped_def)

lemma map_Status_set_ip [simp]: "map Status (set_ip i ip rows) = map Status rows"
  by (simp add: set_ip_def)

lemma map_ExternalIP_set_status [simp]:
  "map ExternalIP (set_status i s rows) = map ExternalIP rows"
  by (simp add: set_status_def)

lemma db_GetContainer_ID: "db_GetContainer e i w = Inr (Some c) \<Longrightarrow> ID c = i"
  by (auto simp: db_GetContainer_def find_Some_iff split: if_splits)

subsection \<open>The two queries\<close>

lemma get_ip_fst [simp]: "fst (k8s_GetServiceExternalIP e ns w) = send (ServicesGet ns) w"
  by (simp add: k8s_GetServiceExternalIP_def)

lemma get_pod_fst [simp]: "fst (k8s_GetPodStatus e ns w) = send (PodsGet ns) w"
  by (simp add: k8s_GetPodStatus_def)

lemma get_ip_snd_send [simp]:
  "snd (k8s_GetServiceExternalIP e ns (send r w)) = snd (k8s_GetServiceExternalIP e ns w)"
  by (simp add: k8s_GetServiceExternalIP_def)

lemma get_ip_snd_update [simp]:
  "snd (k8s_GetServiceExternalIP e ns (fst (db_UpdateContainerStatus e i s w))) =
   snd (k8s_GetServiceExternalIP e ns w)"
  by (simp add: k8s_GetServiceExternalIP_def)

lemma get_ip_unassigned:
  "unassigned (k8s_service e (clock w) ns) \<Longrightarrow>
   snd (k8s_GetServiceExternalIP e ns w) = Inr '''' \<or>
   (\<exists>err. snd (k8s_GetServiceExternalIP e ns w) = Inl err)"
  by (cases "k8s_service e (clock w) ns" rule: unassigned.cases)
     (auto simp: k8s_GetServiceExternalIP_def)

lemma get_ip_found:
  "k8s_service e (clock w) ns = Inr (ip # rest) \<Longrightarrow> ip \<noteq> '''' \<Longrightarrow>
   snd (k8s_GetServiceExternalIP e ns w) = Inr ip"
  by (simp add: k8s_GetServiceExternalIP_def)

lemma pod_status_values:
  "snd (k8s_GetPodStatus e ns w) = Inr st \<Longrightarrow>
   st \<in> {''pending'', ''running'', ''stopped'', ''failed'', ''not_found'', ''unknown''}"
  by (auto simp: k8s_GetPodStatus_def split: sum.splits if_splits)

lemma pod_fails_iff:
  "(\<exists>err. snd (k8s_GetPodStatus e ns w) = Inl err) \<longleftrightarrow>
   (\<exists>err. k8s_pod e (clock w) ns = Inl err \<and> err \<noteq> NotFound)"
  by (auto simp: k8s_GetPodStatus_def split: sum.splits if_splits)

lemma svc_fails_iff:
  "(\<exists>err. snd (k8s_GetServiceExternalIP e ns w) = Inl err) \<longleftrightarrow>
   (\<exists>err. k8s_service e (clock w) ns = Inl err)"
  by (auto simp: k8s_GetServiceExternalIP_def split: sum.splits list.splits if_splits)

subsection \<open>The provisioning sequence\<close>

lemma provision_calls:
  "k8s_calls (provisionContainer e c keys w) =
     k8s_calls w @ map (Pair (clock w))
       (take (Suc (length (takeWhile (create_ok e (clock w)) (provisionSteps c keys))))
          (provisionSteps c keys))"
  by (simp add: provisionContainer_def provisionSteps_def k8s_create_defs create_eq Let_def)

lemma provision_rows:
  "containers (provisionContainer e c keys w) =
     (if db_fails e (clock w) DbUpdateContainerStatus then containers w
      else set_status (ID c)
             (if length (takeWhile (create_ok e (clock w)) (provisionSteps c keys)) = 6
              then ''running'' else ''failed'')
             (containers w))"
  by (simp add: provisionContainer_def provisionSteps_def k8s_create_defs create_eq Let_def)

lemma provision_spawned:
  "spawned (provisionContainer e c keys w) =
     (if length (takeWhile (create_ok e (clock w)) (provisionSteps c keys)) = 6
      then spawned w @ [PollExternalIP c] else spawned w)"
  by (simp add: provisionContainer_def provisionSteps_def k8s_create_defs create_eq Let_def)

lemma provision_secret:
  assumes "create_ok e (clock w) (NamespacesCreate (Namespace c) (fmt_d (UserID c)) (ID c))"
  shows "k8s_calls (provisionContainer e c keys w) ! Suc (length (k8s_calls w)) =
           (clock w, SecretsCreate (Namespace c) (concat (map (\<lambda>k. PublicKey k @ newline) keys)))"
  using assms
  by (simp add: provision_calls provisionSteps_def nth_append)

subsection \<open>The polling loop\<close>

lemma pollLoop_deadline:
  "deadline \<le> tick + 5 \<Longrightarrow> pollLoop e c deadline tick w = (w\<lparr>clock := deadline\<rparr>, TimedOut)"
  by (subst pollLoop.simps) (simp add: pollInterval_def)

lemma pollLoop_unassigned:
  assumes "tick + 5 < deadline" and "unassigned (k8s_service e (tick + 5) (Namespace c))"
  shows "pollLoop e c deadline tick w =
         pollLoop e c deadline (tick + 5)
           (send (ServicesGet (Namespace c)) (w\<lparr>clock := tick + 5\<rparr>))"
proof -
  let ?w = "w\<lparr>clock := tick + 5\<rparr>"
  have u: "unassigned (k8s_service e (clock ?w) (Namespace c))"
    using assms(2) by simp
  obtain w1 r where g: "k8s_GetServiceExternalIP e (Namespace c) ?w = (w1, r)"
    by (cases "k8s_GetServiceExternalIP e (Namespace c) ?w")
  have w1: "w1 = send (ServicesGet (Namespace c)) ?w"
    using g get_ip_fst [of e "Namespace c" ?w] by simp
  have r: "r = Inr '''' \<or> (\<exists>err. r = Inl err)"
    using get_ip_unassigned [OF u] g by simp
  show ?thesis
    using assms(1) g w1 r by (subst pollLoop.simps) (auto simp: pollInterval_def)
qed

lemma pollLoop_found:
  assumes "tick + 5 < deadline"
    and "k8s_service e (tick + 5) (Namespace c) = Inr (ip # rest)" and "ip \<noteq> ''''"
  shows "pollLoop e c deadline tick w =
         (fst (db_UpdateContainerIP e (ID c) ip
                 (send (ServicesGet (Namespace c)) (w\<lparr>clock := tick + 5\<rparr>))), Assigned ip)"
proof -
  let ?w = "w\<lparr>clock := tick + 5\<rparr>"
  obtain w1 r where g: "k8s_GetServiceExternalIP e (Namespace c) ?w = (w1, r)"
    by (cases "k8s_GetServiceExternalIP e (Namespace c) ?w")
  have w1: "w1 = send (ServicesGet (Namespace c)) ?w"
    using g get_ip_fst [of e "Namespace c" ?w] by simp
  have r: "r = Inr ip"
    using get_ip_found [of e ?w "Namespace c" ip rest] assms(2,3) g by simp
  show ?thesis
    using assms(1,3) g w1 r by (subst pollLoop.simps) (simp add: pollInterval_def)
qed

lemma polls_Suc:
  "polls ns start (Suc n) = polls ns start n @ [(start + 5 * Suc n, ServicesGet ns)]"
  by (simp add: polls_def)

lemma polls_0 [simp]: "polls ns start 0 = []"
  by (simp add: polls_def)

text \<open>As long as no address shows, the loop goes from tick to tick.\<close>

lemma pollLoop_waits:
  assumes "\<forall>j. 1 \<le> j \<and> j \<le> m \<longrightarrow> unassigned (k8s_service e (clock w + 5 * j) (Namespace c))"
    and "clock w + 5 * m < deadline"
  shows "pollLoop e c deadline (clock w) w =
         pollLoop e c deadline (clock w + 5 * m)
           (w\<lparr>clock := clock w + 5 * m,
              k8s_calls := k8s_calls w @ polls (Namespace c) (clock w) m\<rparr>)"
  using assms
proof (induction m)
  case 0
  then show ?case by simp
next
  case (Suc m)
  let ?wm = "w\<lparr>clock := clock w + 5 * m,
                k8s_calls := k8s_calls w @ polls (Namespace c) (clock w) m\<rparr>"
  have "pollLoop e c deadline (clock w) w = pollLoop e c deadline (clock w + 5 * m) ?wm"
    using Suc by simp
  also have "\<dots> = pollLoop e c deadline (clock w + 5 * m + 5)
                    (send (ServicesGet (Namespace c)) (?wm\<lparr>clock := clock w + 5 * m + 5\<rparr>))"
    using Suc.prems by (intro pollLoop_unassigned) (auto simp: algebra_simps)
  finally show ?case
    by (simp add: send_def polls_Suc algebra_simps)
qed

subsection \<open>Creating a container\<close>

lemma fmt_d_cap: "fmt_d (int maxContainersPerUser) = ''3''"
  by code_simp

text \<open>What a successful creation leaves behind.\<close>

lemma CreateContainer_created:
  assumes "CreateContainer e user body w = (w', WriteContainer resp)"
  shows "\<exists>u req c. user = Some u \<and> body = Some req
           \<and> c = \<lparr>ID = take 8 (new_uuid e (clock w)), UserID = uid u,
                   Name = TrimSpace (reqName req),
                   Namespace = ''compute-'' @ fmt_d (uid u) @ ''-'' @ take 8 (new_uuid e (clock w)),
                   Status = ''pending'', ExternalIP = None,
                   MemoryMB = (if reqMemoryMB req \<le> 0 then 512 else reqMemoryMB req),
                   StorageGB = (if reqStorageGB req \<le> 0 then 5 else reqStorageGB req),
                   Image = defaultImage, CreatedAt = 0, StoppedAt = None\<rparr>
           \<and> resp = containerToResponse c
           \<and> containers w' = containers w @ [c\<lparr>CreatedAt := clock w\<rparr>]
           \<and> spawned w' = spawned w @
                [ProvisionContainer c
                   (filter (\<lambda>k. KeyUserID k = uid u \<and> KeyID k \<in> set (reqSSHKeyIDs req))
                      (ssh_keys w))]"
  using assms
  by (auto simp: CreateContainer_def Let_def db_CreateContainer_def db_GetSSHKeysByIDs_def
                 defaultMemoryMB_def defaultStorageGB_def
           split: option.splits sum.splits if_splits prod.splits)

lemma memory_default:
  "m \<le> 0 \<Longrightarrow>
   CreateContainer e user (Some (req\<lparr>reqMemoryMB := m\<rparr>)) w =
   CreateContainer e user (Some (req\<lparr>reqMemoryMB := 512\<rparr>)) w"
  by (cases user)
     (simp_all add: CreateContainer_def defaultMemoryMB_def Let_def
               cong: sum.case_cong if_cong)

lemma storage_default:
  "s \<le> 0 \<Longrightarrow>
   CreateContainer e user (Some (req\<lparr>reqStorageGB := s\<rparr>)) w =
   CreateContainer e user (Some (req\<lparr>reqStorageGB := 5\<rparr>)) w"
  by (cases user)
     (simp_all add: CreateContainer_def defaultStorageGB_def Let_def
               cong: sum.case_cong if_cong)

lemma CreateContainer_accepted:
  assumes "accepted_request e u req w"
  shows "CreateContainer e (Some u) (Some req) w =
     (let c = \<lparr>ID = take 8 (new_uuid e (clock w)), UserID = uid u,
                Name = TrimSpace (reqName req),
                Namespace = ''compute-'' @ fmt_d (uid u) @ ''-'' @ take 8 (new_uuid e (clock w)),
                Status = ''pending'', ExternalIP = None,
                MemoryMB = (if reqMemoryMB req \<le> 0 then 512 else reqMemoryMB req),
                StorageGB = (if reqStorageGB req \<le> 0 then 5 else reqStorageGB req),
                Image = defaultImage, CreatedAt = 0, StoppedAt = None\<rparr>
      in (go (ProvisionContainer c
                (filter (\<lambda>k. KeyUserID k = uid u \<and> KeyID k \<in> set (reqSSHKeyIDs req))
                   (ssh_keys w)))
            (w\<lparr>containers := containers w @ [c\<lparr>CreatedAt := clock w\<rparr>]\<rparr>),
          WriteContainer (containerToResponse c)))"
  using assms
  by (simp add: accepted_request_def CreateContainer_def Let_def db_CountContainersByUser_def
                db_GetSSHKeysByIDs_def db_CreateContainer_def defaultMemoryMB_def
                defaultStorageGB_def)

lemma CreateContainer_refused:
  assumes "\<not> accepted_request e u req w"
  shows "\<exists>msg code. CreateContainer e (Some u) (Some req) w = (w, WriteError msg code)"
  using assms
  by (auto simp: accepted_request_def CreateContainer_def Let_def db_CountContainersByUser_def
                db_GetSSHKeysByIDs_def db_CreateContainer_def)

lemma accepted_sizes:
  "accepted_request e u (req\<lparr>reqMemoryMB := m, reqStorageGB := s\<rparr>) w = accepted_request e u req w"
  by (simp add: accepted_request_def)

lemma created_iff_accepted:
  "(\<exists>w' resp. CreateContainer e (Some u) (Some req) w = (w', WriteContainer resp))
     \<longleftrightarrow> accepted_request e u req w"
proof
  assume "\<exists>w' resp. CreateContainer e (Some u) (Some req) w = (w', WriteContainer resp)"
  then obtain w' resp where
    s: "CreateContainer e (Some u) (Some req) w = (w', WriteContainer resp)"
    by (elim exE)
  show "accepted_request e u req w"
  proof (rule ccontr)
    assume "\<not> accepted_request e u req w"
    from CreateContainer_refused [OF this] s show False by auto
  qed
next
  assume "accepted_request e u req w"
  then show "\<exists>w' resp. CreateContainer e (Some u) (Some req) w = (w', WriteContainer resp)"
    by (simp add: CreateContainer_accepted Let_def)
qed

subsection \<open>Decimal numerals\<close>

lemma digits_small: "n < 10 \<Longrightarrow> digits n = [digit_char n]"
  by (subst digits.simps) simp

lemma digits_large: "\<not> n < 10 \<Longrightarrow> digits n = digits (n div 10) @ [digit_char (n mod 10)]"
  by (subst digits.simps) simp

lemma digit_char_value: "d < 10 \<Longrightarrow> of_char (digit_char d) - 48 = d"
  by (simp add: digit_char_def)

lemma digit_chars: "map digit_char [0..<10] = ''0123456789''"
  by code_simp

lemma digit_char_nth: "d < 10 \<Longrightarrow> digit_char d = ''0123456789'' ! d"
proof -
  assume d: "d < 10"
  then have "map digit_char [0..<10] ! d = digit_char d" by simp
  then show ?thesis by (simp only: digit_chars)
qed

lemma digit_char_in: "d < 10 \<Longrightarrow> digit_char d \<in> set ''0123456789''"
  unfolding digit_char_nth by (rule nth_mem) simp

lemma digit_char_zero: "d < 10 \<Longrightarrow> digit_char d = CHR ''0'' \<longleftrightarrow> d = 0"
proof -
  assume d: "d < 10"
  have dist: "distinct ''0123456789''" by simp
  have "''0123456789'' ! d = ''0123456789'' ! 0 \<longleftrightarrow> d = 0"
    using d by (intro nth_eq_iff_index_eq [OF dist]) simp_all
  then show ?thesis using d by (simp add: digit_char_nth)
qed

lemma digits_nonempty: "digits n \<noteq> []"
  by (cases "n < 10") (simp_all add: digits_small digits_large)

lemma digits_value: "foldl (\<lambda>a ch. 10 * a + (of_char ch - 48)) 0 (digits n) = n"
proof (induction n rule: digits.induct)
  case (1 n)
  show ?case
  proof (cases "n < 10")
    case True
    then show ?thesis by (simp add: digits_small digit_char_value)
  next
    case False
    then show ?thesis using 1 by (simp add: digits_large digit_char_value)
  qed
qed

lemma digits_chars: "set (digits n) \<subseteq> set ''0123456789''"
proof (induction n rule: digits.induct)
  case (1 n)
  show ?case
  proof (cases "n < 10")
    case True
    then show ?thesis using digit_char_in [of n] by (simp add: digits_small)
  next
    case False
    then show ?thesis using 1 digit_char_in [of "n mod 10"] by (simp add: digits_large)
  qed
qed

lemma digits_leading: "hd (digits n) = CHR ''0'' \<Longrightarrow> n = 0"
proof (induction n rule: digits.induct)
  case (1 n)
  show ?case
  proof (cases "n < 10")
    case True
    then show ?thesis using 1(2) by (simp add: digits_small digit_char_zero)
  next
    case False
    then have "hd (digits (n div 10)) = CHR ''0''"
      using 1(2) digits_nonempty [of "n div 10"] by (simp add: digits_large)
    then have "n div 10 = 0" using 1(1) False by simp
    then show ?thesis using False by simp
  qed
qed

lemma fmt_d_decimal: "decimal n (fmt_d n)"
proof -
  let ?m = "nat \<bar>n\<bar>"
  have z: "hd (digits ?m) = CHR ''0'' \<longrightarrow> digits ?m = ''0''"
  proof
    assume "hd (digits ?m) = CHR ''0''"
    then have "?m = 0" by (rule digits_leading)
    then show "digits ?m = ''0''" using digit_char_nth [of 0] by (simp add: digits_small)
  qed
  have "fmt_d n = (if n < 0 then ''-'' else '''') @ digits ?m"
    by (simp add: fmt_d_def)
  then show ?thesis
    unfolding decimal_def
    using digits_nonempty [of ?m] digits_chars [of ?m] digits_value [of ?m] z
    by (intro exI [of _ "digits ?m"]) simp
qed

subsection \<open>Reading a container\<close>

text \<open>The read handler on a row the caller owns, in terms of the two answers.\<close>

lemma GetContainer_owned:
  assumes "db_GetContainer e i w = Inr (Some c)" and "UserID c = uid u"
  shows "GetContainer e (Some u) i w =
     (let r1 = snd (k8s_GetPodStatus e (Namespace c) w);
          r2 = snd (k8s_GetServiceExternalIP e (Namespace c) w);
          w1 = send (PodsGet (Namespace c)) w;
          (w2, c2) =
            (case r1 of
               Inr status \<Rightarrow>
                 if status \<noteq> '''' \<and> status \<noteq> Status c
                 then (fst (db_UpdateContainerStatus e i status w1), c\<lparr>Status := status\<rparr>)
                 else (w1, c)
             | Inl err \<Rightarrow> (w1, c));
          w2' = send (ServicesGet (Namespace c)) w2
      in if ExternalIP c = None
         then (case r2 of
                 Inr ip \<Rightarrow>
                   if ip \<noteq> ''''
                   then (fst (db_UpdateContainerIP e i ip w2'),
                         WriteContainer (containerToResponse (c2\<lparr>ExternalIP := Some ip\<rparr>)))
                   else (w2', WriteContainer (containerToResponse c2))
               | Inl err \<Rightarrow> (w2', WriteContainer (containerToResponse c2)))
         else (w2, WriteContainer (containerToResponse c2)))"
proof -
  have i: "ID c = i" using assms(1) by (rule db_GetContainer_ID)
  show ?thesis
  proof (cases "snd (k8s_GetPodStatus e (Namespace c) w)")
    case (Inl err)
    then show ?thesis
      using assms i
      by (cases "snd (k8s_GetServiceExternalIP e (Namespace c) w)")
         (simp_all add: GetContainer_def Let_def split_def)
  next
    case (Inr st)
    then show ?thesis
      using assms i
      by (cases "snd (k8s_GetServiceExternalIP e (Namespace c) w)")
         (simp_all add: GetContainer_def Let_def split_def)
  qed
qed

lemma read_writes_container:
  assumes "db_GetContainer e i w = Inr (Some c)" and "UserID c = uid u"
  shows "\<exists>resp. snd (GetContainer e (Some u) i w) = WriteContainer resp"
  unfolding GetContainer_owned [OF assms]
  by (simp add: Let_def split_def split: sum.splits)

lemma read_pod_failure:
  assumes "db_GetContainer e i w = Inr (Some c)" and "UserID c = uid u"
    and "snd (k8s_GetPodStatus e (Namespace c) w) = Inl err"
  shows "(\<exists>resp. snd (GetContainer e (Some u) i w) = WriteContainer resp
            \<and> respStatus resp = Status c)
       \<and> map Status (containers (fst (GetContainer e (Some u) i w))) = map Status (containers w)"
  unfolding GetContainer_owned [OF assms(1,2)]
  using assms(3) by (simp add: Let_def containerToResponse_def split: sum.splits)

lemma read_svc_failure:
  assumes "db_GetContainer e i w = Inr (Some c)" and "UserID c = uid u"
    and "snd (k8s_GetServiceExternalIP e (Namespace c) w) = Inl err"
  shows "(\<exists>resp. snd (GetContainer e (Some u) i w) = WriteContainer resp
            \<and> respExternalIP resp = ExternalIP c)
       \<and> map ExternalIP (containers (fst (GetContainer e (Some u) i w))) =
           map ExternalIP (containers w)"
  unfolding GetContainer_owned [OF assms(1,2)]
  using assms(3) by (simp add: Let_def split_def containerToResponse_def split: sum.splits)

lemma read_both_fail:
  assumes "db_GetContainer e i w = Inr (Some c)" and "UserID c = uid u"
    and "snd (k8s_GetPodStatus e (Namespace c) w) = Inl err"
    and "(\<exists>err. snd (k8s_GetServiceExternalIP e (Namespace c) w) = Inl err)
           \<or> ExternalIP c \<noteq> None"
  shows "snd (GetContainer e (Some u) i w) = WriteContainer (containerToResponse c)
       \<and> containers (fst (GetContainer e (Some u) i w)) = containers w"
  unfolding GetContainer_owned [OF assms(1,2)]
  using assms(3,4) by (auto simp: Let_def)

lemma read_status_stored:
  assumes "db_GetContainer e i w = Inr (Some c)" and "UserID c = uid u"
  shows "map Status (containers (fst (GetContainer e (Some u) i w))) =
              (case snd (k8s_GetPodStatus e (Namespace c) w) of
                 Inl err \<Rightarrow> map Status (containers w)
               | Inr st \<Rightarrow>
                   if st = Status c \<or> db_fails e (clock w) DbUpdateContainerStatus
                   then map Status (containers w)
                   else map Status (set_status i st (containers w)))"
proof (cases "snd (k8s_GetPodStatus e (Namespace c) w)")
  case (Inl err)
  then show ?thesis
    unfolding GetContainer_owned [OF assms]
    by (simp add: Let_def split: sum.splits)
next
  case (Inr st)
  then have "st \<noteq> ''''"
    using pod_status_values [of e "Namespace c" w st] by auto
  then show ?thesis
    unfolding GetContainer_owned [OF assms] using Inr
    by (simp add: Let_def split: sum.splits)
qed

lemma read_status_returned:
  assumes "db_GetContainer e i w = Inr (Some c)" and "UserID c = uid u"
  shows "\<exists>resp. snd (GetContainer e (Some u) i w) = WriteContainer resp
           \<and> respStatus resp =
               (case snd (k8s_GetPodStatus e (Namespace c) w) of
                  Inl err \<Rightarrow> Status c
                | Inr st \<Rightarrow> st)"
proof (cases "snd (k8s_GetPodStatus e (Namespace c) w)")
  case (Inl err)
  then show ?thesis
    unfolding GetContainer_owned [OF assms]
    by (simp add: Let_def containerToResponse_def split: sum.splits)
next
  case (Inr st)
  then have "st \<noteq> ''''"
    using pod_status_values [of e "Namespace c" w st] by auto
  then show ?thesis
    unfolding GetContainer_owned [OF assms] using Inr
    by (simp add: Let_def containerToResponse_def split: sum.splits)
qed

subsection \<open>The examples, evaluated\<close>

lemmas example_defs = alice_def bob_def key1_def key2_def steady_def no_storage_def pod_gone_def
  unreachable_def slow_lb_def dev1_def box_def w0_def w1_def w_stopped_def w_full_def

lemma created:
  "CreateContainer steady (Some alice) (Some dev1) w0 =
     (go (ProvisionContainer box [key1, key2]) w1, WriteContainer (containerToResponse box))"
  by code_simp

lemma row_of_box:
  "db_GetContainer e ''3f2a9c1e'' w1 =
     (if db_fails e 100 DbGetContainer then Inl (Errorf ''query container'')
      else Inr (Some (box\<lparr>CreatedAt := 100\<rparr>)))"
  by (simp add: db_GetContainer_def w1_def w0_def box_def)

lemma row_of_box_steady:
  "db_GetContainer steady ''3f2a9c1e'' w1 = Inr (Some (box\<lparr>CreatedAt := 100\<rparr>))"
  by (simp add: row_of_box) (simp add: steady_def)

lemma row_of_box_unreachable:
  "db_GetContainer unreachable ''3f2a9c1e'' w1 = Inr (Some (box\<lparr>CreatedAt := 100\<rparr>))"
  by (simp add: row_of_box) (simp add: unreachable_def steady_def)

lemma row_of_box_pod_gone:
  "db_GetContainer pod_gone ''3f2a9c1e'' w1 = Inr (Some (box\<lparr>CreatedAt := 100\<rparr>))"
  by (simp add: row_of_box) (simp add: pod_gone_def steady_def)

lemma row_stopped:
  "db_GetContainer pod_gone ''3f2a9c1e'' w_stopped =
     Inr (Some (box\<lparr>Status := ''stopped'', StoppedAt := Some 90\<rparr>))"
  by code_simp

lemma no_row: "db_GetContainer steady ''deadbeef'' w1 = Inr None"
  by code_simp

lemma dev1_accepted: "accepted_request steady alice dev1 w0"
  by code_simp

section \<open>The claims\<close>

text \<open>
  C1. The provisioning sequence sends its six creations strictly in the order namespace,
  SSH secret, volume claim, network policy, workload, load-balancer service. With \<open>n\<close>
  the number of leading steps the API server accepts, the requests sent are the first
  \<open>n + 1\<close> steps (all six when \<open>n = 6\<close>): the first refused step is the last one sent.
  When a step is refused (\<open>n < 6\<close>) the status written to the row is \<^verbatim>\<open>failed\<close> and no
  poller is started; only when all six are accepted is the status \<^verbatim>\<open>running\<close> written
  and the poller started. The row changes unless the database refuses the update, whose
  error the source drops.
\<close>

theorem provision_in_order:
  "let steps = provisionSteps c keys;
       n = length (takeWhile (create_ok e (clock w)) steps);
       w' = provisionContainer e c keys w
   in k8s_calls w' = k8s_calls w @ map (Pair (clock w)) (take (Suc n) steps)
    \<and> containers w' =
        (if db_fails e (clock w) DbUpdateContainerStatus then containers w
         else set_status (ID c) (if n = 6 then ''running'' else ''failed'') (containers w))
    \<and> spawned w' = (if n = 6 then spawned w @ [PollExternalIP c] else spawned w)"
  unfolding Let_def
  by (intro conjI provision_calls provision_rows provision_spawned)

theorem provision_in_order_witness:
  "k8s_calls (provisionContainer no_storage box [key1, key2] w1) =
     [(100, NamespacesCreate ''compute-7-3f2a9c1e'' ''7'' ''3f2a9c1e''),
      (100, SecretsCreate ''compute-7-3f2a9c1e''
              (''ssh-ed25519 AAAA alice@laptop'' @ newline @ ''ssh-rsa BBBB alice@desk'' @ newline)),
      (100, PersistentVolumeClaimsCreate ''compute-7-3f2a9c1e'' ''5Gi'')]
   \<and> map Status (containers (provisionContainer no_storage box [key1, key2] w1)) = [''failed'']
   \<and> spawned (provisionContainer no_storage box [key1, key2] w1) = []"
proof -
  have steps: "provisionSteps box [key1, key2] =
     [NamespacesCreate ''compute-7-3f2a9c1e'' ''7'' ''3f2a9c1e'',
      SecretsCreate ''compute-7-3f2a9c1e''
              (''ssh-ed25519 AAAA alice@laptop'' @ newline @ ''ssh-rsa BBBB alice@desk'' @ newline),
      PersistentVolumeClaimsCreate ''compute-7-3f2a9c1e'' ''5Gi'',
      NetworkPoliciesCreate ''compute-7-3f2a9c1e'',
      PodsCreate ''compute-7-3f2a9c1e'' ''eddisonso/edd-compute-base:latest'' ''512Mi'',
      ServicesCreate ''compute-7-3f2a9c1e'']"
    by code_simp
  have n: "length (takeWhile (create_ok no_storage (clock w1)) (provisionSteps box [key1, key2])) = 2"
    by code_simp
  show ?thesis
    using provision_in_order [of box "[key1, key2]" no_storage w1]
    unfolding Let_def n unfolding steps
    by (simp add: example_defs set_status_def)
qed

text \<open>
  C2, as stated, fails. The row of \<open>box\<close> is stored with status \<^verbatim>\<open>stopped\<close> and its pod
  is absent from the cluster. After a read by its owner the stored status is
  \<^verbatim>\<open>not_found\<close>: the status the cluster reported was written, and the last known
  status was not kept.
\<close>

theorem not_found_is_persisted:
  "map Status (containers w_stopped) = [''stopped'']
   \<and> k8s_pod pod_gone (clock w_stopped) ''compute-7-3f2a9c1e'' = Inl NotFound
   \<and> map Status (containers (fst (GetContainer pod_gone (Some alice) ''3f2a9c1e'' w_stopped))) =
       [''not_found'']"
  by code_simp

text \<open>
  C2, as the code has it. On a read of a row the caller owns, every status the pod query
  reports that differs from the stored one is written to the row, \<^verbatim>\<open>not_found\<close> (the
  pod is absent) and \<^verbatim>\<open>unknown\<close> (a phase the client does not know) included. The
  stored status stays only when the query fails, reports the stored status, or the
  database refuses the update. The handler answers with the container, and the status in
  the answer is the reported one whenever the query succeeds, the stored one when it
  fails. The statuses a read can write are \<^verbatim>\<open>pending\<close>, \<^verbatim>\<open>running\<close>, \<^verbatim>\<open>stopped\<close>,
  \<^verbatim>\<open>failed\<close>, \<^verbatim>\<open>not_found\<close> and \<^verbatim>\<open>unknown\<close>.
\<close>

theorem read_persists_reported_status:
  assumes "db_GetContainer e i w = Inr (Some c)" and "UserID c = uid u"
  shows "let w' = fst (GetContainer e (Some u) i w)
         in map Status (containers w') =
              (case snd (k8s_GetPodStatus e (Namespace c) w) of
                 Inl err \<Rightarrow> map Status (containers w)
               | Inr st \<Rightarrow>
                   if st = Status c \<or> db_fails e (clock w) DbUpdateContainerStatus
                   then map Status (containers w)
                   else map Status (set_status i st (containers w)))
          \<and> (\<exists>resp. snd (GetContainer e (Some u) i w) = WriteContainer resp
                \<and> respStatus resp =
                    (case snd (k8s_GetPodStatus e (Namespace c) w) of
                       Inl err \<Rightarrow> Status c
                     | Inr st \<Rightarrow> st))
          \<and> (k8s_pod e (clock w) (Namespace c) = Inl NotFound \<longrightarrow>
               snd (k8s_GetPodStatus e (Namespace c) w) = Inr ''not_found'')
          \<and> (\<forall>phase. k8s_pod e (clock w) (Namespace c) = Inr phase
                \<and> phase \<notin> {''Pending'', ''Running'', ''Succeeded'', ''Failed''} \<longrightarrow>
               snd (k8s_GetPodStatus e (Namespace c) w) = Inr ''unknown'')
          \<and> (\<forall>st. snd (k8s_GetPodStatus e (Namespace c) w) = Inr st \<longrightarrow>
               st \<in> {''pending'', ''running'', ''stopped'', ''failed'', ''not_found'',
                     ''unknown''})"
proof -
  have b: "k8s_pod e (clock w) (Namespace c) = Inl NotFound \<longrightarrow>
               snd (k8s_GetPodStatus e (Namespace c) w) = Inr ''not_found''"
    by (simp add: k8s_GetPodStatus_def)
  have c: "\<forall>phase. k8s_pod e (clock w) (Namespace c) = Inr phase
                \<and> phase \<notin> {''Pending'', ''Running'', ''Succeeded'', ''Failed''} \<longrightarrow>
               snd (k8s_GetPodStatus e (Namespace c) w) = Inr ''unknown''"
    by (simp add: k8s_GetPodStatus_def)
  have d: "\<forall>st. snd (k8s_GetPodStatus e (Namespace c) w) = Inr st \<longrightarrow>
               st \<in> {''pending'', ''running'', ''stopped'', ''failed'', ''not_found'',
                     ''unknown''}"
    by (intro allI impI) (rule pod_status_values)
  note a = read_status_stored [OF assms]
  note r = read_status_returned [OF assms]
  show ?thesis
    unfolding Let_def by (intro conjI a r b c d)
qed

theorem read_persists_reported_status_witness:
  "map Status (containers (fst (GetContainer pod_gone (Some alice) ''3f2a9c1e'' w_stopped))) =
     [''not_found'']
   \<and> (\<exists>resp. snd (GetContainer pod_gone (Some alice) ''3f2a9c1e'' w_stopped) =
                WriteContainer resp \<and> respStatus resp = ''not_found'')"
proof -
  have u: "UserID (box\<lparr>Status := ''stopped'', StoppedAt := Some 90\<rparr>) = uid alice"
    by code_simp
  have st: "snd (k8s_GetPodStatus pod_gone
              (Namespace (box\<lparr>Status := ''stopped'', StoppedAt := Some 90\<rparr>)) w_stopped) =
            Inr ''not_found''"
    by code_simp
  have f: "\<not> db_fails pod_gone (clock w_stopped) DbUpdateContainerStatus"
    by code_simp
  have s: "Status (box\<lparr>Status := ''stopped'', StoppedAt := Some 90\<rparr>) = ''stopped''"
    by code_simp
  have rows: "map Status (set_status ''3f2a9c1e'' ''not_found'' (containers w_stopped)) =
              [''not_found'']"
    by code_simp
  note t = read_persists_reported_status [OF row_stopped u, unfolded Let_def]
  have 1: "map Status (containers (fst (GetContainer pod_gone (Some alice) ''3f2a9c1e'' w_stopped))) =
     [''not_found'']"
    using t [THEN conjunct1] unfolding st s using f rows by simp
  have 2: "\<exists>resp. snd (GetContainer pod_gone (Some alice) ''3f2a9c1e'' w_stopped) =
                WriteContainer resp \<and> respStatus resp = ''not_found''"
    using t [THEN conjunct2, THEN conjunct1] unfolding st by simp
  show ?thesis using 1 2 by (rule conjI)
qed

text \<open>
  C3, as stated, fails. The request \<open>dev1\<close> names the keys 2 and 1, in this order. The
  secret the provisioning creates holds the line of key 1 first and the line of key 2
  second, the order of the table.
\<close>

theorem secret_not_in_request_order:
  "reqSSHKeyIDs dev1 = [2, 1]
   \<and> CreateContainer steady (Some alice) (Some dev1) w0 =
       (go (ProvisionContainer box [key1, key2]) w1, WriteContainer (containerToResponse box))
   \<and> k8s_calls (provisionContainer steady box [key1, key2] w1) ! 1 =
       (100, SecretsCreate ''compute-7-3f2a9c1e''
               (PublicKey key1 @ newline @ PublicKey key2 @ newline))
   \<and> PublicKey key1 @ newline @ PublicKey key2 @ newline \<noteq>
       PublicKey key2 @ newline @ PublicKey key1 @ newline"
  by code_simp

text \<open>
  C3, as the code has it. When a creation succeeds, the keys handed to the provisioning
  are the rows of the key table that belong to the caller and whose id is among the
  requested ids, in the order of the table: the query has no \<^verbatim>\<open>ORDER BY\<close> and the
  order of the ids in the request plays no part. The second request of the provisioning
  (sent once the namespace is accepted) creates the secret whose content is these keys'
  public-key lines, each followed by a newline, in that order.
\<close>

theorem secret_holds_selected_keys:
  assumes "CreateContainer e (Some u) (Some req) w = (w', WriteContainer resp)"
  shows "let keys = filter (\<lambda>k. KeyUserID k = uid u \<and> KeyID k \<in> set (reqSSHKeyIDs req))
                      (ssh_keys w)
         in \<exists>c. spawned w' = spawned w @ [ProvisionContainer c keys]
              \<and> (\<forall>e2 w2.
                    create_ok e2 (clock w2)
                      (NamespacesCreate (Namespace c) (fmt_d (UserID c)) (ID c)) \<longrightarrow>
                    k8s_calls (provisionContainer e2 c keys w2) ! Suc (length (k8s_calls w2)) =
                      (clock w2,
                       SecretsCreate (Namespace c)
                         (concat (map (\<lambda>k. PublicKey k @ newline) keys))))"
proof -
  obtain c where
    c: "spawned w' = spawned w @
          [ProvisionContainer c
             (filter (\<lambda>k. KeyUserID k = uid u \<and> KeyID k \<in> set (reqSSHKeyIDs req)) (ssh_keys w))]"
    using CreateContainer_created [OF assms] by auto
  show ?thesis
    unfolding Let_def using c provision_secret by blast
qed

theorem secret_holds_selected_keys_witness:
  "\<exists>c. spawned (go (ProvisionContainer box [key1, key2]) w1) = [ProvisionContainer c [key1, key2]]
      \<and> k8s_calls (provisionContainer steady c [key1, key2] w1) ! 1 =
          (100, SecretsCreate (Namespace c)
                  (PublicKey key1 @ newline @ PublicKey key2 @ newline))"
proof -
  have keys: "filter (\<lambda>k. KeyUserID k = uid alice \<and> KeyID k \<in> set (reqSSHKeyIDs dev1))
                (ssh_keys w0) = [key1, key2]"
    by code_simp
  have sp: "spawned w0 = []" "k8s_calls w1 = []" "clock w1 = 100"
    by (simp_all add: w0_def w1_def)
  have ok: "create_ok steady 100 r" for r
    by (simp add: create_ok_def steady_def)
  from secret_holds_selected_keys [OF created, unfolded Let_def keys]
  obtain c where 1: "spawned (go (ProvisionContainer box [key1, key2]) w1) =
                       spawned w0 @ [ProvisionContainer c [key1, key2]]"
    and 2: "\<forall>e2 w2. create_ok e2 (clock w2)
                      (NamespacesCreate (Namespace c) (fmt_d (UserID c)) (ID c)) \<longrightarrow>
                    k8s_calls (provisionContainer e2 c [key1, key2] w2) ! Suc (length (k8s_calls w2)) =
                      (clock w2,
                       SecretsCreate (Namespace c)
                         (concat (map (\<lambda>k. PublicKey k @ newline) [key1, key2])))"
    by (elim exE conjE)
  from 2 [rule_format, of steady w1] ok
  have "k8s_calls (provisionContainer steady c [key1, key2] w1) ! 1 =
          (100, SecretsCreate (Namespace c)
                  (PublicKey key1 @ newline @ PublicKey key2 @ newline))"
    by (simp add: sp)
  with 1 show ?thesis by (auto simp: sp)
qed

text \<open>
  C4. A user who owns three or more containers whose status is not \<^verbatim>\<open>deleted\<close>, counted
  on the rows of the table at the time of the call, cannot create another one: whatever
  the request, the handler answers with an error and leaves the state as it was (no row,
  no provisioning, no request to the cluster). When the request has a name that is not
  blank and the count query succeeds, the error is the limit error, status 400 with the
  message \<^verbatim>\<open>container limit reached (3)\<close>. The name is checked before the count, and a
  failed count query is an internal error.
\<close>

theorem cap_enforced:
  assumes "maxContainersPerUser \<le>
             length (filter (\<lambda>c. UserID c = uid u \<and> Status c \<noteq> ''deleted'') (containers w))"
  shows "fst (CreateContainer e (Some u) body w) = w
       \<and> (\<exists>msg code. snd (CreateContainer e (Some u) body w) = WriteError msg code)
       \<and> (body = Some req \<and> TrimSpace (reqName req) \<noteq> ''''
            \<and> \<not> db_fails e (clock w) DbCountContainersByUser \<longrightarrow>
          snd (CreateContainer e (Some u) body w) =
            WriteError ''container limit reached (3)'' 400)"
  using assms
  by (auto simp: CreateContainer_def Let_def db_CountContainersByUser_def fmt_d_cap
           split: option.splits sum.splits if_splits prod.splits)

theorem cap_enforced_witness:
  "fst (CreateContainer steady (Some alice) (Some dev1) w_full) = w_full
   \<and> snd (CreateContainer steady (Some alice) (Some dev1) w_full) =
       WriteError ''container limit reached (3)'' 400"
proof -
  have h: "maxContainersPerUser \<le>
             length (filter (\<lambda>c. UserID c = uid alice \<and> Status c \<noteq> ''deleted'')
                       (containers w_full))"
    by code_simp
  have n: "TrimSpace (reqName dev1) \<noteq> ''''"
    by code_simp
  have f: "\<not> db_fails steady (clock w_full) DbCountContainersByUser"
    by (simp add: steady_def)
  show ?thesis
    using cap_enforced [OF h, of steady "Some dev1" dev1] n f by simp
qed

text \<open>
  C5. An accepted request creates a container: the handler inserts its row, hands it to
  the provisioning and answers with it. The namespace of the container is
  \<^verbatim>\<open>compute-\<close>, the decimal numeral of the user id, a dash and the container id (the
  first eight characters of the UUID): a function of the user id and the container id
  alone. Every successful creation has this form, and two creations, in whatever state
  and surroundings, for the same user id and with the same container id give the same
  namespace.
\<close>

theorem namespace_of_created:
  "(accepted_request e u req w \<longrightarrow>
      (\<exists>c keys. CreateContainer e (Some u) (Some req) w =
                  (go (ProvisionContainer c keys)
                      (w\<lparr>containers := containers w @ [c\<lparr>CreatedAt := clock w\<rparr>]\<rparr>),
                   WriteContainer (containerToResponse c))
          \<and> UserID c = uid u \<and> ID c = take 8 (new_uuid e (clock w))
          \<and> Namespace c = ''compute-'' @ fmt_d (UserID c) @ ''-'' @ ID c))
   \<and> decimal (uid u) (fmt_d (uid u))
   \<and> (CreateContainer e (Some u) body w = (w', WriteContainer resp) \<longrightarrow>
        (\<exists>c keys. spawned w' = spawned w @ [ProvisionContainer c keys]
           \<and> containers w' = containers w @ [c\<lparr>CreatedAt := clock w\<rparr>]
           \<and> respID resp = ID c \<and> UserID c = uid u
           \<and> ID c = take 8 (new_uuid e (clock w))
           \<and> Namespace c = ''compute-'' @ fmt_d (UserID c) @ ''-'' @ ID c)
        \<and> (\<forall>e2 u2 body2 w2 w2' resp2.
             CreateContainer e2 (Some u2) body2 w2 = (w2', WriteContainer resp2)
             \<and> uid u2 = uid u \<and> respID resp2 = respID resp \<longrightarrow>
             Namespace (last (containers w2')) = Namespace (last (containers w'))))"
proof (intro conjI impI allI)
  assume "accepted_request e u req w"
  from CreateContainer_accepted [OF this]
  show "\<exists>c keys. CreateContainer e (Some u) (Some req) w =
                  (go (ProvisionContainer c keys)
                      (w\<lparr>containers := containers w @ [c\<lparr>CreatedAt := clock w\<rparr>]\<rparr>),
                   WriteContainer (containerToResponse c))
          \<and> UserID c = uid u \<and> ID c = take 8 (new_uuid e (clock w))
          \<and> Namespace c = ''compute-'' @ fmt_d (UserID c) @ ''-'' @ ID c"
    unfolding Let_def by (intro exI conjI) (assumption, simp_all)
next
  show "decimal (uid u) (fmt_d (uid u))" by (rule fmt_d_decimal)
next
  assume s: "CreateContainer e (Some u) body w = (w', WriteContainer resp)"
  show "\<exists>c keys. spawned w' = spawned w @ [ProvisionContainer c keys]
           \<and> containers w' = containers w @ [c\<lparr>CreatedAt := clock w\<rparr>]
           \<and> respID resp = ID c \<and> UserID c = uid u
           \<and> ID c = take 8 (new_uuid e (clock w))
           \<and> Namespace c = ''compute-'' @ fmt_d (UserID c) @ ''-'' @ ID c"
    using CreateContainer_created [OF s]
    by (auto simp: containerToResponse_def)
next
  fix e2 u2 body2 w2 w2' resp2
  assume s: "CreateContainer e (Some u) body w = (w', WriteContainer resp)"
  assume a: "CreateContainer e2 (Some u2) body2 w2 = (w2', WriteContainer resp2)
             \<and> uid u2 = uid u \<and> respID resp2 = respID resp"
  have 1: "Namespace (last (containers w')) =
             ''compute-'' @ fmt_d (uid u) @ ''-'' @ respID resp"
    using CreateContainer_created [OF s]
    by (auto simp: containerToResponse_def)
  have 2: "Namespace (last (containers w2')) =
             ''compute-'' @ fmt_d (uid u2) @ ''-'' @ respID resp2"
    using CreateContainer_created [OF a [THEN conjunct1]]
    by (auto simp: containerToResponse_def)
  show "Namespace (last (containers w2')) = Namespace (last (containers w'))"
    using a 1 2 by simp
qed

theorem namespace_of_created_witness:
  "map Namespace (containers (fst (CreateContainer steady (Some alice) (Some dev1) w0))) =
     [''compute-7-3f2a9c1e'']
   \<and> (\<exists>c keys. spawned (fst (CreateContainer steady (Some alice) (Some dev1) w0)) =
                 [ProvisionContainer c keys]
         \<and> ID c = ''3f2a9c1e'' \<and> UserID c = 7 \<and> Namespace c = ''compute-7-3f2a9c1e'')
   \<and> (\<exists>resp. snd (CreateContainer steady (Some alice) (Some dev1) w0) = WriteContainer resp
         \<and> respID resp = ''3f2a9c1e'')"
proof -
  have v: "take 8 (new_uuid steady (clock w0)) = ''3f2a9c1e''" "uid alice = 7"
    "fmt_d 7 = ''7''" "spawned w0 = []" "containers w0 = []"
    by code_simp+
  from namespace_of_created [of steady alice dev1 w0, THEN conjunct1, rule_format,
      OF dev1_accepted]
  obtain c keys where r: "CreateContainer steady (Some alice) (Some dev1) w0 =
                  (go (ProvisionContainer c keys)
                      (w0\<lparr>containers := containers w0 @ [c\<lparr>CreatedAt := clock w0\<rparr>]\<rparr>),
                   WriteContainer (containerToResponse c))"
    and c: "UserID c = uid alice" "ID c = take 8 (new_uuid steady (clock w0))"
      "Namespace c = ''compute-'' @ fmt_d (UserID c) @ ''-'' @ ID c"
    by (elim exE conjE)
  have n: "Namespace c = ''compute-7-3f2a9c1e''" "ID c = ''3f2a9c1e''" "UserID c = 7"
    using c by (simp_all add: v)
  show ?thesis
    unfolding r using n by (simp add: v containerToResponse_def)
qed

text \<open>
  C6. Stopping a container the caller owns sends one request to the cluster, the
  deletion of the pod, and nothing else. When the API server answers without error or
  answers not-found, the handler writes the container with status \<^verbatim>\<open>stopped\<close> and the
  row gets the status \<^verbatim>\<open>stopped\<close> and the current time as stopped-at (unless the
  database refuses the update, which the source only logs); the other rows stay.
  On any other answer the handler writes an error and the table stays as it was.
\<close>

theorem stop_deletes_only_the_pod:
  assumes "db_GetContainer e i w = Inr (Some c)" and "UserID c = uid u"
  shows "let (w', r) = StopContainer e (Some u) i w
         in k8s_calls w' = k8s_calls w @ [(clock w, PodsDelete (Namespace c))]
          \<and> (if k8s_write e (clock w) (PodsDelete (Namespace c)) = None
                \<or> k8s_write e (clock w) (PodsDelete (Namespace c)) = Some NotFound
             then r = WriteContainer (containerToResponse (c\<lparr>Status := ''stopped''\<rparr>))
                \<and> containers w' =
                    (if db_fails e (clock w) DbUpdateContainerStopped then containers w
                     else map (\<lambda>row. if ID row = ID c
                                      then row\<lparr>Status := ''stopped'',
                                               StoppedAt := Some (clock w)\<rparr>
                                      else row) (containers w))
             else r = WriteError ''failed to stop container'' 500
                \<and> containers w' = containers w)"
  using assms db_GetContainer_ID [OF assms(1)]
  by (simp add: StopContainer_def k8s_DeletePod_def delete_eq delete_ok_def set_stopped_def)

theorem stop_deletes_only_the_pod_witness:
  "k8s_calls (fst (StopContainer pod_gone (Some alice) ''3f2a9c1e'' w1)) =
     [(100, PodsDelete ''compute-7-3f2a9c1e'')]
   \<and> snd (StopContainer pod_gone (Some alice) ''3f2a9c1e'' w1) =
       WriteContainer (containerToResponse (box\<lparr>CreatedAt := 100, Status := ''stopped''\<rparr>))
   \<and> containers (fst (StopContainer pod_gone (Some alice) ''3f2a9c1e'' w1)) =
       [box\<lparr>CreatedAt := 100, Status := ''stopped'', StoppedAt := Some 100\<rparr>]"
proof -
  have u: "UserID (box\<lparr>CreatedAt := 100\<rparr>) = uid alice"
    by code_simp
  have v: "k8s_write pod_gone t r = Some NotFound" "\<not> db_fails pod_gone t op" for t r op
    by (simp_all add: pod_gone_def steady_def)
  show ?thesis
    using stop_deletes_only_the_pod [OF row_of_box_pod_gone u]
    by (simp add: split_def Let_def v) (simp add: w1_def w0_def box_def)
qed

text \<open>
  C7. The poller queries the service's address every 5 seconds, at 5, 10, ... seconds
  after its start. A query that fails or shows no address does not end the polling.
  If the \<open>k\<close>-th query (\<open>k\<close> from 1 to 59) is the first to show an address, the poller
  has sent exactly \<open>k\<close> queries, stops at \<open>5 * k\<close> seconds and the address is written to
  the row (unless the database refuses the update, which the source only logs). If none
  of the 59 queries before the deadline of 300 seconds shows an address, the poller
  stops at the deadline, with no error, and the table is as it was.
\<close>

theorem poller_behaviour:
  "(1 \<le> k \<and> k \<le> 59
      \<and> (\<forall>j. 1 \<le> j \<and> j < k \<longrightarrow> unassigned (k8s_service e (clock w + 5 * j) (Namespace c)))
      \<and> k8s_service e (clock w + 5 * k) (Namespace c) = Inr (ip # rest) \<and> ip \<noteq> '''' \<longrightarrow>
    (let (w', r) = pollExternalIP e c w
     in r = Assigned ip
      \<and> k8s_calls w' = k8s_calls w @ polls (Namespace c) (clock w) k
      \<and> clock w' = clock w + 5 * k
      \<and> containers w' =
          (if db_fails e (clock w + 5 * k) DbUpdateContainerIP then containers w
           else set_ip (ID c) ip (containers w))))
 \<and> ((\<forall>j. 1 \<le> j \<and> j \<le> 59 \<longrightarrow> unassigned (k8s_service e (clock w + 5 * j) (Namespace c))) \<longrightarrow>
    (let (w', r) = pollExternalIP e c w
     in r = TimedOut
      \<and> k8s_calls w' = k8s_calls w @ polls (Namespace c) (clock w) 59
      \<and> clock w' = clock w + 300
      \<and> containers w' = containers w))"
proof (intro conjI impI)
  assume a: "1 \<le> k \<and> k \<le> 59
      \<and> (\<forall>j. 1 \<le> j \<and> j < k \<longrightarrow> unassigned (k8s_service e (clock w + 5 * j) (Namespace c)))
      \<and> k8s_service e (clock w + 5 * k) (Namespace c) = Inr (ip # rest) \<and> ip \<noteq> ''''"
  then obtain m where k: "k = Suc m" by (cases k) auto
  let ?wm = "w\<lparr>clock := clock w + 5 * m,
                k8s_calls := k8s_calls w @ polls (Namespace c) (clock w) m\<rparr>"
  have "pollExternalIP e c w = pollLoop e c (clock w + 300) (clock w + 5 * m) ?wm"
    unfolding pollExternalIP_def pollTimeout_def using a k
    by (simp add: pollLoop_waits [of m e w c "clock w + 300"])
  also have "\<dots> = (fst (db_UpdateContainerIP e (ID c) ip
                 (send (ServicesGet (Namespace c)) (?wm\<lparr>clock := clock w + 5 * m + 5\<rparr>))),
               Assigned ip)"
    using a k by (intro pollLoop_found [where rest = rest]) (auto simp: algebra_simps)
  finally show "let (w', r) = pollExternalIP e c w
     in r = Assigned ip
      \<and> k8s_calls w' = k8s_calls w @ polls (Namespace c) (clock w) k
      \<and> clock w' = clock w + 5 * k
      \<and> containers w' =
          (if db_fails e (clock w + 5 * k) DbUpdateContainerIP then containers w
           else set_ip (ID c) ip (containers w))"
    by (simp add: k polls_Suc algebra_simps)
next
  assume a: "\<forall>j. 1 \<le> j \<and> j \<le> 59 \<longrightarrow> unassigned (k8s_service e (clock w + 5 * j) (Namespace c))"
  let ?wm = "w\<lparr>clock := clock w + 5 * 59,
                k8s_calls := k8s_calls w @ polls (Namespace c) (clock w) 59\<rparr>"
  have "pollExternalIP e c w = pollLoop e c (clock w + 300) (clock w + 5 * 59) ?wm"
    unfolding pollExternalIP_def pollTimeout_def using a
    by (simp add: pollLoop_waits [of 59 e w c "clock w + 300"])
  also have "\<dots> = (?wm\<lparr>clock := clock w + 300\<rparr>, TimedOut)"
    by (intro pollLoop_deadline) simp
  finally show "let (w', r) = pollExternalIP e c w
     in r = TimedOut
      \<and> k8s_calls w' = k8s_calls w @ polls (Namespace c) (clock w) 59
      \<and> clock w' = clock w + 300
      \<and> containers w' = containers w"
    by simp
qed

theorem poller_behaviour_witness:
  "snd (pollExternalIP slow_lb box w1) = Assigned ''203.0.113.7''
   \<and> k8s_calls (fst (pollExternalIP slow_lb box w1)) =
       [(105, ServicesGet ''compute-7-3f2a9c1e''), (110, ServicesGet ''compute-7-3f2a9c1e''),
        (115, ServicesGet ''compute-7-3f2a9c1e'')]
   \<and> clock (fst (pollExternalIP slow_lb box w1)) = 115
   \<and> map ExternalIP (containers (fst (pollExternalIP slow_lb box w1))) = [Some ''203.0.113.7'']
   \<and> snd (pollExternalIP steady box w1) = TimedOut
   \<and> length (k8s_calls (fst (pollExternalIP steady box w1))) = 59
   \<and> clock (fst (pollExternalIP steady box w1)) = 400
   \<and> containers (fst (pollExternalIP steady box w1)) = containers w1"
proof -
  have c: "clock w1 = 100" "k8s_calls w1 = []" "Namespace box = ''compute-7-3f2a9c1e''"
    "ID box = ''3f2a9c1e''"
    by (simp_all add: w1_def w0_def box_def)
  have early: "\<forall>j. 1 \<le> j \<and> j < 3 \<longrightarrow>
                 unassigned (k8s_service slow_lb (clock w1 + 5 * j) (Namespace box))"
    by (auto simp: slow_lb_def c)
  have third: "k8s_service slow_lb (clock w1 + 5 * 3) (Namespace box) = Inr [''203.0.113.7'']"
    by (simp add: slow_lb_def c)
  have never: "\<forall>j. 1 \<le> j \<and> j \<le> 59 \<longrightarrow>
                 unassigned (k8s_service steady (clock w1 + 5 * j) (Namespace box))"
    by (simp add: steady_def)
  have f: "\<not> db_fails slow_lb t op" for t op
    by (simp add: slow_lb_def steady_def)
  have rows: "map ExternalIP (set_ip ''3f2a9c1e'' ''203.0.113.7'' (containers w1)) =
              [Some ''203.0.113.7'']"
    by code_simp
  have p3: "polls ''compute-7-3f2a9c1e'' 100 3 =
       [(105, ServicesGet ''compute-7-3f2a9c1e''), (110, ServicesGet ''compute-7-3f2a9c1e''),
        (115, ServicesGet ''compute-7-3f2a9c1e'')]"
    by code_simp
  have p59: "length (polls ns start 59) = 59" for ns start
    by (simp add: polls_def)
  have a: "let (w', r) = pollExternalIP slow_lb box w1
     in r = Assigned ''203.0.113.7''
      \<and> k8s_calls w' = k8s_calls w1 @ polls (Namespace box) (clock w1) 3
      \<and> clock w' = clock w1 + 5 * 3
      \<and> containers w' =
          (if db_fails slow_lb (clock w1 + 5 * 3) DbUpdateContainerIP then containers w1
           else set_ip (ID box) ''203.0.113.7'' (containers w1))"
    using poller_behaviour [of 3 slow_lb w1 box "''203.0.113.7''" "[]", THEN conjunct1]
      early third by simp
  have b: "let (w', r) = pollExternalIP steady box w1
     in r = TimedOut
      \<and> k8s_calls w' = k8s_calls w1 @ polls (Namespace box) (clock w1) 59
      \<and> clock w' = clock w1 + 300
      \<and> containers w' = containers w1"
    using poller_behaviour [of _ steady w1 box, THEN conjunct2] never by simp
  show ?thesis
    using a b by (simp add: split_def Let_def f c rows p3 p59)
qed

text \<open>
  C8. A read of a row the caller owns always writes the container, never an error,
  whatever the cluster answers. When the pod query fails, the status written and the
  statuses stored are the stored ones; when the service query fails, the address written
  and the addresses stored are the stored ones; when the pod query fails and the service
  query fails (or is not made, the row having an address), the handler writes the stored
  row and the table is as it was.
\<close>

theorem read_survives_cluster_failure:
  assumes "db_GetContainer e i w = Inr (Some c)" and "UserID c = uid u"
  shows "let (w', r) = GetContainer e (Some u) i w;
             pod_fails = (\<exists>err. k8s_pod e (clock w) (Namespace c) = Inl err \<and> err \<noteq> NotFound);
             svc_fails = (\<exists>err. k8s_service e (clock w) (Namespace c) = Inl err)
         in (\<exists>resp. r = WriteContainer resp)
          \<and> (pod_fails \<longrightarrow>
               (\<exists>resp. r = WriteContainer resp \<and> respStatus resp = Status c)
               \<and> map Status (containers w') = map Status (containers w))
          \<and> (svc_fails \<longrightarrow>
               (\<exists>resp. r = WriteContainer resp \<and> respExternalIP resp = ExternalIP c)
               \<and> map ExternalIP (containers w') = map ExternalIP (containers w))
          \<and> (pod_fails \<and> (svc_fails \<or> ExternalIP c \<noteq> None) \<longrightarrow>
               r = WriteContainer (containerToResponse c) \<and> containers w' = containers w)"
proof -
  let ?G = "GetContainer e (Some u) i w"
  have a: "\<exists>resp. snd ?G = WriteContainer resp"
    using assms by (rule read_writes_container)
  have b: "(\<exists>resp. snd ?G = WriteContainer resp \<and> respStatus resp = Status c)
             \<and> map Status (containers (fst ?G)) = map Status (containers w)"
    if "\<exists>err. k8s_pod e (clock w) (Namespace c) = Inl err \<and> err \<noteq> NotFound"
    using that read_pod_failure [OF assms] pod_fails_iff [of e "Namespace c" w] by blast
  have c: "(\<exists>resp. snd ?G = WriteContainer resp \<and> respExternalIP resp = ExternalIP c)
             \<and> map ExternalIP (containers (fst ?G)) = map ExternalIP (containers w)"
    if "\<exists>err. k8s_service e (clock w) (Namespace c) = Inl err"
    using that read_svc_failure [OF assms] svc_fails_iff [of e "Namespace c" w] by blast
  have d: "snd ?G = WriteContainer (containerToResponse c) \<and> containers (fst ?G) = containers w"
    if "\<exists>err. k8s_pod e (clock w) (Namespace c) = Inl err \<and> err \<noteq> NotFound"
      and "(\<exists>err. k8s_service e (clock w) (Namespace c) = Inl err) \<or> ExternalIP c \<noteq> None"
    using that read_both_fail [OF assms] pod_fails_iff [of e "Namespace c" w]
      svc_fails_iff [of e "Namespace c" w] by blast
  show ?thesis
    using a b c d by (simp add: Let_def split_def)
qed

theorem read_survives_cluster_failure_witness:
  "snd (GetContainer unreachable (Some alice) ''3f2a9c1e'' w1) =
     WriteContainer (containerToResponse (box\<lparr>CreatedAt := 100\<rparr>))
   \<and> containers (fst (GetContainer unreachable (Some alice) ''3f2a9c1e'' w1)) = containers w1"
proof -
  have u: "UserID (box\<lparr>CreatedAt := 100\<rparr>) = uid alice"
    by code_simp
  have p: "\<exists>err. k8s_pod unreachable (clock w1) (Namespace (box\<lparr>CreatedAt := 100\<rparr>)) = Inl err
             \<and> err \<noteq> NotFound"
    by (simp add: unreachable_def)
  have s: "\<exists>err. k8s_service unreachable (clock w1) (Namespace (box\<lparr>CreatedAt := 100\<rparr>)) = Inl err"
    by (simp add: unreachable_def)
  show ?thesis
    using read_survives_cluster_failure [OF row_of_box_unreachable u] p s
    by (simp add: split_def Let_def)
qed

text \<open>
  C9. Get, stop, start and delete on the id of a row that belongs to another user write
  \<^verbatim>\<open>container not found\<close> with status 404 and leave the state as it was: the same
  answer, and the same state, as for an id that no row has.
\<close>

theorem foreign_container_not_found:
  assumes "db_GetContainer e i w = Inr (Some c)" and "UserID c \<noteq> uid u"
    and "db_GetContainer e j w = Inr None"
  shows "GetContainer e (Some u) i w = (w, WriteError ''container not found'' 404)
       \<and> GetContainer e (Some u) j w = (w, WriteError ''container not found'' 404)
       \<and> StopContainer e (Some u) i w = (w, WriteError ''container not found'' 404)
       \<and> StopContainer e (Some u) j w = (w, WriteError ''container not found'' 404)
       \<and> StartContainer e (Some u) i w = (w, WriteError ''container not found'' 404)
       \<and> StartContainer e (Some u) j w = (w, WriteError ''container not found'' 404)
       \<and> DeleteContainer e (Some u) i w = (w, WriteError ''container not found'' 404)
       \<and> DeleteContainer e (Some u) j w = (w, WriteError ''container not found'' 404)"
  using assms
  by (simp add: GetContainer_def StopContainer_def StartContainer_def DeleteContainer_def)

theorem foreign_container_not_found_witness:
  "GetContainer steady (Some bob) ''3f2a9c1e'' w1 = (w1, WriteError ''container not found'' 404)
   \<and> GetContainer steady (Some bob) ''deadbeef'' w1 = (w1, WriteError ''container not found'' 404)
   \<and> StopContainer steady (Some bob) ''3f2a9c1e'' w1 = (w1, WriteError ''container not found'' 404)
   \<and> StopContainer steady (Some bob) ''deadbeef'' w1 = (w1, WriteError ''container not found'' 404)
   \<and> StartContainer steady (Some bob) ''3f2a9c1e'' w1 = (w1, WriteError ''container not found'' 404)
   \<and> StartContainer steady (Some bob) ''deadbeef'' w1 = (w1, WriteError ''container not found'' 404)
   \<and> DeleteContainer steady (Some bob) ''3f2a9c1e'' w1 = (w1, WriteError ''container not found'' 404)
   \<and> DeleteContainer steady (Some bob) ''deadbeef'' w1 = (w1, WriteError ''container not found'' 404)"
proof -
  have u: "UserID (box\<lparr>CreatedAt := 100\<rparr>) \<noteq> uid bob"
    by code_simp
  show ?thesis
    by (rule foreign_container_not_found [OF row_of_box_steady u no_row])
qed

text \<open>
  C10. An accepted request creates a container whose memory is 512 when the request's
  \<^verbatim>\<open>memory_mb\<close> is zero or negative, and whose storage is 5 when its \<^verbatim>\<open>storage_gb\<close> is
  zero or negative; the row inserted and the container written carry these values. The
  two values never cause a rejection: a request is answered with a container exactly when
  it is accepted, and whether it is accepted does not depend on them. A request with a
  memory of zero or less is handled exactly as the same request with 512, one with a
  storage of zero or less exactly as the same request with 5.
\<close>

theorem defaults_applied:
  "(m \<le> 0 \<longrightarrow>
      CreateContainer e user (Some (req\<lparr>reqMemoryMB := m\<rparr>)) w =
      CreateContainer e user (Some (req\<lparr>reqMemoryMB := 512\<rparr>)) w)
   \<and> (s \<le> 0 \<longrightarrow>
      CreateContainer e user (Some (req\<lparr>reqStorageGB := s\<rparr>)) w =
      CreateContainer e user (Some (req\<lparr>reqStorageGB := 5\<rparr>)) w)
   \<and> (CreateContainer e user (Some req) w = (w', WriteContainer resp) \<longrightarrow>
      respMemoryMB resp = (if reqMemoryMB req \<le> 0 then 512 else reqMemoryMB req)
      \<and> respStorageGB resp = (if reqStorageGB req \<le> 0 then 5 else reqStorageGB req)
      \<and> MemoryMB (last (containers w')) = respMemoryMB resp
      \<and> StorageGB (last (containers w')) = respStorageGB resp)
   \<and> (accepted_request e u req w \<longrightarrow>
      (\<exists>c keys. CreateContainer e (Some u) (Some req) w =
                  (go (ProvisionContainer c keys)
                      (w\<lparr>containers := containers w @ [c\<lparr>CreatedAt := clock w\<rparr>]\<rparr>),
                   WriteContainer (containerToResponse c))
          \<and> MemoryMB c = (if reqMemoryMB req \<le> 0 then 512 else reqMemoryMB req)
          \<and> StorageGB c = (if reqStorageGB req \<le> 0 then 5 else reqStorageGB req)))
   \<and> ((\<exists>w2 resp2. CreateContainer e (Some u) (Some req) w = (w2, WriteContainer resp2))
        \<longleftrightarrow> accepted_request e u req w)
   \<and> accepted_request e u (req\<lparr>reqMemoryMB := m, reqStorageGB := s\<rparr>) w =
       accepted_request e u req w"
proof (intro conjI impI)
  assume "CreateContainer e user (Some req) w = (w', WriteContainer resp)"
  from CreateContainer_created [OF this]
  show "respMemoryMB resp = (if reqMemoryMB req \<le> 0 then 512 else reqMemoryMB req)"
    and "respStorageGB resp = (if reqStorageGB req \<le> 0 then 5 else reqStorageGB req)"
    and "MemoryMB (last (containers w')) = respMemoryMB resp"
    and "StorageGB (last (containers w')) = respStorageGB resp"
    by (auto simp: containerToResponse_def)
next
  assume "accepted_request e u req w"
  from CreateContainer_accepted [OF this]
  show "\<exists>c keys. CreateContainer e (Some u) (Some req) w =
                  (go (ProvisionContainer c keys)
                      (w\<lparr>containers := containers w @ [c\<lparr>CreatedAt := clock w\<rparr>]\<rparr>),
                   WriteContainer (containerToResponse c))
          \<and> MemoryMB c = (if reqMemoryMB req \<le> 0 then 512 else reqMemoryMB req)
          \<and> StorageGB c = (if reqStorageGB req \<le> 0 then 5 else reqStorageGB req)"
    unfolding Let_def by (intro exI conjI) (assumption, simp_all)
qed (simp_all add: memory_default storage_default created_iff_accepted accepted_sizes)

theorem defaults_applied_witness:
  "reqMemoryMB dev1 = 0 \<and> reqStorageGB dev1 = - 3
   \<and> map MemoryMB (containers (fst (CreateContainer steady (Some alice) (Some dev1) w0))) = [512]
   \<and> map StorageGB (containers (fst (CreateContainer steady (Some alice) (Some dev1) w0))) = [5]
   \<and> (\<exists>resp. snd (CreateContainer steady (Some alice) (Some dev1) w0) = WriteContainer resp
         \<and> respMemoryMB resp = 512 \<and> respStorageGB resp = 5)
   \<and> CreateContainer steady (Some alice) (Some (dev1\<lparr>reqMemoryMB := - 5\<rparr>)) w0 =
     CreateContainer steady (Some alice) (Some (dev1\<lparr>reqMemoryMB := 512\<rparr>)) w0
   \<and> CreateContainer steady (Some alice) (Some (dev1\<lparr>reqStorageGB := 0\<rparr>)) w0 =
     CreateContainer steady (Some alice) (Some (dev1\<lparr>reqStorageGB := 5\<rparr>)) w0"
proof -
  have v: "reqMemoryMB dev1 = 0" "reqStorageGB dev1 = - 3" "containers w0 = []"
    by (simp_all add: dev1_def w0_def)
  note t = defaults_applied [of "- 5" steady "Some alice" dev1 w0 0 _ _ alice]
  from t [THEN conjunct2, THEN conjunct2, THEN conjunct2, THEN conjunct1, rule_format,
      OF dev1_accepted]
  obtain c keys where r: "CreateContainer steady (Some alice) (Some dev1) w0 =
                  (go (ProvisionContainer c keys)
                      (w0\<lparr>containers := containers w0 @ [c\<lparr>CreatedAt := clock w0\<rparr>]\<rparr>),
                   WriteContainer (containerToResponse c))"
    and c: "MemoryMB c = (if reqMemoryMB dev1 \<le> 0 then 512 else reqMemoryMB dev1)"
      "StorageGB c = (if reqStorageGB dev1 \<le> 0 then 5 else reqStorageGB dev1)"
    by (elim exE conjE)
  have n: "MemoryMB c = 512" "StorageGB c = 5"
    using c by (simp_all add: v)
  have e1: "CreateContainer steady (Some alice) (Some (dev1\<lparr>reqMemoryMB := - 5\<rparr>)) w0 =
     CreateContainer steady (Some alice) (Some (dev1\<lparr>reqMemoryMB := 512\<rparr>)) w0"
    using t [THEN conjunct1] by simp
  have e2: "CreateContainer steady (Some alice) (Some (dev1\<lparr>reqStorageGB := 0\<rparr>)) w0 =
     CreateContainer steady (Some alice) (Some (dev1\<lparr>reqStorageGB := 5\<rparr>)) w0"
    using t [THEN conjunct2, THEN conjunct1] by simp
  show ?thesis
    unfolding r using n e1 e2 by (simp add: v containerToResponse_def)
qed

end
